theory Spec2Isabelle
  imports Main "HOL-Library.Word"
begin

section \<open>JavaScript strings\<close>

text \<open>
  A JavaScript string is a sequence of UTF-16 code units; \<^verbatim>\<open>.length\<close> counts code units,
  and a regular expression without the \<^verbatim>\<open>u\<close> flag matches code unit by code unit.
\<close>

type_synonym code_unit = "16 word"
type_synonym jsstring = "code_unit list"

definition js :: "string \<Rightarrow> jsstring" where
  \<comment> \<open>the code units of an ASCII literal\<close>
  "js s = map of_char s"

definition isWhiteSpace :: "code_unit \<Rightarrow> bool" where
  \<comment> \<open>ECMAScript WhiteSpace and LineTerminator: the characters of \<^verbatim>\<open>\s\<close>, and the ones
      \<^verbatim>\<open>String.prototype.trim\<close> strips\<close>
  "isWhiteSpace c \<longleftrightarrow>
     c \<in> set [0x0009, 0x000A, 0x000B, 0x000C, 0x000D, 0x0020, 0x00A0, 0x1680,
              0x2028, 0x2029, 0x202F, 0x205F, 0x3000, 0xFEFF]
     \<or> (0x2000 \<le> c \<and> c \<le> 0x200A)"

definition trim :: "jsstring \<Rightarrow> jsstring" where
  "trim s = rev (dropWhile isWhiteSpace (rev (dropWhile isWhiteSpace s)))"

definition falsy :: "jsstring option \<Rightarrow> bool" where
  \<comment> \<open>\<^verbatim>\<open>!v\<close> for a value that is a string or \<^verbatim>\<open>undefined\<close> (\<open>None\<close>)\<close>
  "falsy v = (case v of None \<Rightarrow> True | Some s \<Rightarrow> s = [])"

definition toString :: "jsstring option \<Rightarrow> jsstring" where
  \<comment> \<open>ToString, as applied by \<^verbatim>\<open>RegExp.prototype.test\<close> and by template literals\<close>
  "toString v = (case v of None \<Rightarrow> js ''undefined'' | Some s \<Rightarrow> s)"

section \<open>The email pattern\<close>

text \<open>
  Both files use the literal \<^verbatim>\<open>/^[^\s@]+@[^\s@]+\.[^\s@]+$/\<close>: anchored at both ends, a sequence
  of literal characters and of character classes under \<^verbatim>\<open>+\<close>. \<open>regex_test\<close> is the
  backtracking matcher for such a sequence: a class under \<^verbatim>\<open>+\<close> takes one character and
  then first tries to take more, then to go on with the rest of the pattern.
\<close>

datatype regex_item = Lit code_unit | ClassPlus "code_unit \<Rightarrow> bool"

fun regex_test :: "regex_item list \<Rightarrow> jsstring \<Rightarrow> bool" where
  "regex_test [] s = (s = [])"
| "regex_test (Lit c # r) [] = False"
| "regex_test (Lit c # r) (x # xs) = (x = c \<and> regex_test r xs)"
| "regex_test (ClassPlus p # r) [] = False"
| "regex_test (ClassPlus p # r) (x # xs) =
     (p x \<and> (regex_test (ClassPlus p # r) xs \<or> regex_test r xs))"

definition notSpaceAt :: "code_unit \<Rightarrow> bool" where
  \<comment> \<open>the class \<^verbatim>\<open>[^\s@]\<close>\<close>
  "notSpaceAt c \<longleftrightarrow> \<not> isWhiteSpace c \<and> c \<noteq> 0x0040"

definition emailRegex :: "regex_item list" where
  "emailRegex =
     [ClassPlus notSpaceAt, Lit 0x0040, ClassPlus notSpaceAt, Lit 0x002E, ClassPlus notSpaceAt]"

section \<open>Form Controller (src/App.tsx)\<close>

record FormData =
  name :: jsstring
  email :: jsstring
  subject :: jsstring
  message :: jsstring

datatype field = Name | Email | Subject | Message

text \<open>
  \<^verbatim>\<open>FormErrors\<close>: every key is optional and, when present, holds a string or
  \<^verbatim>\<open>undefined\<close>. \<open>None\<close> is an absent key, \<open>Some None\<close> a key holding \<^verbatim>\<open>undefined\<close>.
\<close>

type_synonym FormErrors = "field \<rightharpoonup> jsstring option"

datatype SubmissionStatus = Idle | Loading | Success | Error

record app_state =
  formData :: FormData
  errors :: FormErrors
  status :: SubmissionStatus
  statusMessage :: jsstring

definition initial_state :: app_state where
  "initial_state =
     \<lparr>formData = \<lparr>name = [], email = [], subject = [], message = []\<rparr>,
      errors = Map.empty, status = Idle, statusMessage = []\<rparr>"

text \<open>The fixed user-facing messages of the form, as UTF-16 code units.\<close>

definition nameRequiredMessage :: jsstring where
  \<open>nameRequiredMessage =
     [0xC774, 0xB984, 0xC744, 0x0020, 0xC785, 0xB825, 0xD574, 0xC8FC, 0xC138, 0xC694]\<close>

definition emailRequiredMessage :: jsstring where
  \<open>emailRequiredMessage =
     [0xC774, 0xBA54, 0xC77C, 0xC744, 0x0020, 0xC785, 0xB825, 0xD574, 0xC8FC, 0xC138,
      0xC694]\<close>

definition emailFormatMessage :: jsstring where
  \<open>emailFormatMessage =
     [0xC62C, 0xBC14, 0xB978, 0x0020, 0xC774, 0xBA54, 0xC77C, 0x0020, 0xD615, 0xC2DD,
      0xC744, 0x0020, 0xC785, 0xB825, 0xD574, 0xC8FC, 0xC138, 0xC694]\<close>

definition subjectRequiredMessage :: jsstring where
  \<open>subjectRequiredMessage =
     [0xC81C, 0xBAA9, 0xC744, 0x0020, 0xC785, 0xB825, 0xD574, 0xC8FC, 0xC138, 0xC694]\<close>

definition messageRequiredMessage :: jsstring where
  \<open>messageRequiredMessage =
     [0xBA54, 0xC2DC, 0xC9C0, 0xB97C, 0x0020, 0xC785, 0xB825, 0xD574, 0xC8FC, 0xC138,
      0xC694]\<close>

definition messageTooShortMessage :: jsstring where
  \<open>messageTooShortMessage =
     [0xBA54, 0xC2DC, 0xC9C0, 0xB294, 0x0020, 0xCD5C, 0xC18C, 0x0020, 0x0031, 0x0030,
      0xC790, 0x0020, 0xC774, 0xC0C1, 0x0020, 0xC785, 0xB825, 0xD574, 0xC8FC, 0xC138,
      0xC694]\<close>

definition submitSuccessMessage :: jsstring where
  \<open>submitSuccessMessage =
     [0xBA54, 0xC2DC, 0xC9C0, 0xAC00, 0x0020, 0xC131, 0xACF5, 0xC801, 0xC73C, 0xB85C,
      0x0020, 0xC804, 0xC1A1, 0xB418, 0xC5C8, 0xC2B5, 0xB2C8, 0xB2E4, 0x0021, 0x0020,
      0xBE60, 0xB978, 0x0020, 0xC2DC, 0xC77C, 0x0020, 0xB0B4, 0xC5D0, 0x0020, 0xB2F5,
      0xBCC0, 0xB4DC, 0xB9AC, 0xACA0, 0xC2B5, 0xB2C8, 0xB2E4, 0x002E]\<close>

definition submitFailureMessage :: jsstring where
  \<open>submitFailureMessage =
     [0xBA54, 0xC2DC, 0xC9C0, 0x0020, 0xC804, 0xC1A1, 0xC5D0, 0x0020, 0xC2E4, 0xD328,
      0xD588, 0xC2B5, 0xB2C8, 0xB2E4, 0x002E, 0x0020, 0xC7A0, 0xC2DC, 0x0020, 0xD6C4,
      0x0020, 0xB2E4, 0xC2DC, 0x0020, 0xC2DC, 0xB3C4, 0xD574, 0xC8FC, 0xC138, 0xC694,
      0x002E]\<close>

definition validateEmail :: "jsstring \<Rightarrow> bool" where
  "validateEmail e = regex_test emailRegex e"

definition keys :: "FormErrors \<Rightarrow> field list" where
  \<comment> \<open>\<^verbatim>\<open>Object.keys\<close>: the keys present, whatever they hold\<close>
  "keys e = filter (\<lambda>f. e f \<noteq> None) [Name, Email, Subject, Message]"

definition validateForm :: "app_state \<Rightarrow> bool \<times> app_state" where
  "validateForm s =
     (let fd = formData s;
          newErrors0 = (Map.empty :: FormErrors);
          newErrors1 =
            (if trim (name fd) = [] then newErrors0(Name \<mapsto> Some nameRequiredMessage)
             else newErrors0);
          newErrors2 =
            (if trim (email fd) = [] then newErrors1(Email \<mapsto> Some emailRequiredMessage)
             else if \<not> validateEmail (email fd)
               then newErrors1(Email \<mapsto> Some emailFormatMessage)
             else newErrors1);
          newErrors3 =
            (if trim (subject fd) = [] then newErrors2(Subject \<mapsto> Some subjectRequiredMessage)
             else newErrors2);
          newErrors4 =
            (if trim (message fd) = [] then newErrors3(Message \<mapsto> Some messageRequiredMessage)
             else if length (trim (message fd)) < 10
               then newErrors3(Message \<mapsto> Some messageTooShortMessage)
             else newErrors3)
      in (length (keys newErrors4) = 0, s\<lparr>errors := newErrors4\<rparr>))"

fun field_value :: "field \<Rightarrow> FormData \<Rightarrow> jsstring" where
  "field_value Name fd = name fd"
| "field_value Email fd = email fd"
| "field_value Subject fd = subject fd"
| "field_value Message fd = message fd"

fun set_field :: "field \<Rightarrow> jsstring \<Rightarrow> FormData \<Rightarrow> FormData" where
  \<comment> \<open>\<^verbatim>\<open>{ ...prev, [name]: value }\<close>\<close>
  "set_field Name v fd = fd\<lparr>name := v\<rparr>"
| "set_field Email v fd = fd\<lparr>email := v\<rparr>"
| "set_field Subject v fd = fd\<lparr>subject := v\<rparr>"
| "set_field Message v fd = fd\<lparr>message := v\<rparr>"

definition handleInputChange :: "field \<Rightarrow> jsstring \<Rightarrow> app_state \<Rightarrow> app_state" where
  \<comment> \<open>the two arguments are \<^verbatim>\<open>e.target.name\<close> and \<^verbatim>\<open>e.target.value\<close>\<close>
  "handleInputChange target_name target_value s =
     (let s1 = s\<lparr>formData := set_field target_name target_value (formData s)\<rparr>
      in if \<not> falsy (case errors s target_name of None \<Rightarrow> None | Some v \<Rightarrow> v)
         then s1\<lparr>errors := (errors s1)(target_name \<mapsto> None)\<rparr>
         else s1)"

datatype 'd console_call = ConsoleError string 'd | ConsoleLog string 'd

text \<open>
  What one run of \<^verbatim>\<open>handleSubmit\<close> does: whether \<^verbatim>\<open>e.preventDefault()\<close> was called, the
  states it commits one after the other (the first before the \<^verbatim>\<open>await\<close>, the second
  after it), the payloads handed to \<^verbatim>\<open>sendContactEmail\<close>, and the console output.
\<close>

record 'e submit_run =
  defaultPrevented :: bool
  states :: "app_state list"
  sent :: "FormData list"
  console :: "'e console_call list"

text \<open>
  \<^verbatim>\<open>sendContactEmail\<close> lives in \<^verbatim>\<open>./lib/supabase\<close>; the handler only sees whether the
  awaited call returns (\<open>Inr\<close>) or throws (\<open>Inl\<close>), so it is a parameter here.
\<close>

definition handleSubmit :: "(FormData \<Rightarrow> 'e + 'r) \<Rightarrow> app_state \<Rightarrow> 'e submit_run" where
  "handleSubmit sendContactEmail s =
     (let (valid, s1) = validateForm s
      in if \<not> valid
         then \<lparr>defaultPrevented = True, states = [s1], sent = [], console = []\<rparr>
         else
           let s2 = s1\<lparr>status := Loading\<rparr>
           in case sendContactEmail (formData s) of
                Inr r \<Rightarrow>
                  \<lparr>defaultPrevented = True,
                   states =
                     [s2,
                      s2\<lparr>status := Success, statusMessage := submitSuccessMessage,
                         formData := \<lparr>name = [], email = [], subject = [], message = []\<rparr>\<rparr>],
                   sent = [formData s], console = []\<rparr>
              | Inl e \<Rightarrow>
                  \<lparr>defaultPrevented = True,
                   states = [s2, s2\<lparr>status := Error, statusMessage := submitFailureMessage\<rparr>],
                   sent = [formData s],
                   console = [ConsoleError ''Email sending failed:'' e]\<rparr>)"

definition resetStatus :: "app_state \<Rightarrow> app_state" where
  "resetStatus s = s\<lparr>status := Idle, statusMessage := []\<rparr>"

text \<open>
  The rule of each field in words: a field is acceptable when it is not empty after
  trimming and, for the email, has the address shape, for the message, keeps at least 10
  code units after trimming.
\<close>

fun field_valid :: "field \<Rightarrow> FormData \<Rightarrow> bool" where
  "field_valid Name fd \<longleftrightarrow> trim (name fd) \<noteq> []"
| "field_valid Email fd \<longleftrightarrow> trim (email fd) \<noteq> [] \<and> validateEmail (email fd)"
| "field_valid Subject fd \<longleftrightarrow> trim (subject fd) \<noteq> []"
| "field_valid Message fd \<longleftrightarrow> trim (message fd) \<noteq> [] \<and> 10 \<le> length (trim (message fd))"

section \<open>Submission Relay (the Deno handler)\<close>

type_synonym json_object = "string \<rightharpoonup> jsstring"
type_synonym headers = "string \<rightharpoonup> string"

datatype json_value = JBool bool | JString jsstring

record response =
  resp_status :: nat
  resp_headers :: headers
  resp_body :: "(string \<times> json_value) list option"

text \<open>
  A request as the handler reads it: its method, and what \<^verbatim>\<open>await req.json()\<close> gives,
  \<open>None\<close> when it throws (the body is not JSON, or is \<^verbatim>\<open>null\<close>, which the destructuring
  rejects). The fields follow the declared \<^verbatim>\<open>EmailRequest\<close>: strings, or absent.
\<close>

record request =
  req_method :: string
  req_json :: "json_object option"

record email_payload =
  payload_from :: string
  payload_to :: "string list"
  payload_subject :: jsstring
  payload_html :: jsstring

record provider_request =
  url :: string
  fetch_method :: string
  authorization :: jsstring
  content_type :: string
  fetch_body :: email_payload

datatype fetch_result =
    FetchThrows
  | FetchResponse (ok: bool) (response_json: "json_object option")

datatype thrown = RequestJsonError | TypeError | FetchError | ResponseJsonError

datatype log_detail = NoDetail | Caught thrown | Json json_object

text \<open>
  What the handler reads from outside: the headers of \<^verbatim>\<open>../_shared/cors.ts\<close>, the
  environment variable, and the delivery provider behind \<^verbatim>\<open>fetch\<close>.
\<close>

record relay_env =
  corsHeaders :: headers
  RESEND_API_KEY :: "jsstring option"
  fetch :: "provider_request \<Rightarrow> fetch_result"

record relay_run =
  response :: response
  fetched :: "provider_request list"
  logged :: "log_detail console_call list"

text \<open>The fixed texts of the relay: response messages, subject prefix, and the HTML template around its four holes.\<close>

definition relaySuccessMessage :: jsstring where
  \<open>relaySuccessMessage =
     [0xBA54, 0xC77C, 0xC774, 0x0020, 0xC131, 0xACF5, 0xC801, 0xC73C, 0xB85C, 0x0020,
      0xC804, 0xC1A1, 0xB418, 0xC5C8, 0xC2B5, 0xB2C8, 0xB2E4, 0x0021]\<close>

definition relayFailureMessage :: jsstring where
  \<open>relayFailureMessage =
     [0xBA54, 0xC77C, 0x0020, 0xC804, 0xC1A1, 0x0020, 0xC911, 0x0020, 0xC624, 0xB958,
      0xAC00, 0x0020, 0xBC1C, 0xC0DD, 0xD588, 0xC2B5, 0xB2C8, 0xB2E4, 0x002E]\<close>

definition subjectPrefix :: jsstring where
  \<open>subjectPrefix =
     [0xC0C8, 0xB85C, 0xC6B4, 0x0020, 0xBB38, 0xC758, 0x003A, 0x0020]\<close>

definition html_part0 :: jsstring where
  \<open>html_part0 =
     js ''@@'' @ [0x000A]
     @ js ''        <div style="font-family: Arial, sans-serif; max-width: 6''
       @ js ''00px; margin: 0 auto; padding: 20px;">'' @ [0x000A]
     @ js ''          <h2 style="color: #333; border-bottom: 2px solid #e1e5''
       @ js ''e9; padding-bottom: 10px;">'' @ [0x000A]
     @ js ''            ''
       @ [0xC0C8, 0xB85C, 0xC6B4, 0x0020, 0xBB38, 0xC758, 0xAC00, 0x0020, 0xC811, 0xC218]
       @ [0xB418, 0xC5C8, 0xC2B5, 0xB2C8, 0xB2E4] @ [0x000A]
     @ js ''          </h2>'' @ [0x000A]
     @ js ''          '' @ [0x000A]
     @ js ''          <div style="background-color: #f8f9fa; padding: 20px; ''
       @ js ''border-radius: 8px; margin: 20px 0;">'' @ [0x000A]
     @ js ''            <h3 style="color: #495057; margin-top: 0;">''
       @ [0xBB38, 0xC758, 0xC790, 0x0020, 0xC815, 0xBCF4] @ js ''</h3>'' @ [0x000A]
     @ js ''            <p style="margin: 8px 0;"><strong>'' @ [0xC774, 0xB984]
       @ js '':</strong> ''\<close>

definition html_part1 :: jsstring where
  \<open>html_part1 =
     js ''</p>'' @ [0x000A]
     @ js ''            <p style="margin: 8px 0;"><strong>'' @ [0xC774, 0xBA54, 0xC77C]
       @ js '':</strong> ''\<close>

definition html_part2 :: jsstring where
  \<open>html_part2 =
     js ''</p>'' @ [0x000A]
     @ js ''            <p style="margin: 8px 0;"><strong>'' @ [0xC81C, 0xBAA9]
       @ js '':</strong> ''\<close>

definition html_part3 :: jsstring where
  \<open>html_part3 =
     js ''</p>'' @ [0x000A]
     @ js ''          </div>'' @ [0x000A]
     @ js ''          '' @ [0x000A]
     @ js ''          <div style="background-color: #ffffff; padding: 20px; ''
       @ js ''border: 1px solid #e1e5e9; border-radius: 8px;">'' @ [0x000A]
     @ js ''            <h3 style="color: #495057; margin-top: 0;">''
       @ [0xBB38, 0xC758, 0x0020, 0xB0B4, 0xC6A9] @ js ''</h3>'' @ [0x000A]
     @ js ''            <div style="line-height: 1.6; color: #333;">'' @ [0x000A]
     @ js ''              ''\<close>

definition html_part4 :: jsstring where
  \<open>html_part4 =
     [0x000A]
     @ js ''            </div>'' @ [0x000A]
     @ js ''          </div>'' @ [0x000A]
     @ js ''          '' @ [0x000A]
     @ js ''          <div style="margin-top: 30px; padding-top: 20px; borde''
       @ js ''r-top: 1px solid #e1e5e9; color: #6c757d; font-size: 14px;">'' @ [0x000A]
     @ js ''            <p>''
       @ [0xC774, 0x0020, 0xBA54, 0xC77C, 0xC740, 0x0020, 0xC6F9, 0xC0AC, 0xC774, 0xD2B8]
       @ [0x0020, 0xBB38, 0xC758, 0x0020, 0xD3FC, 0xC744, 0x0020, 0xD1B5, 0xD574, 0x0020]
       @ [0xC790, 0xB3D9, 0xC73C, 0xB85C, 0x0020, 0xBC1C, 0xC1A1, 0xB418, 0xC5C8, 0xC2B5]
       @ [0xB2C8, 0xB2E4] @ js ''.</p>'' @ [0x000A]
     @ js ''            <p>''
       @ [0xB2F5, 0xBCC0, 0xC744, 0x0020, 0xC6D0, 0xD558, 0xC2DC, 0xBA74, 0x0020, 0xC704]
       @ [0xC758, 0x0020, 0xC774, 0xBA54, 0xC77C, 0x0020, 0xC8FC, 0xC18C, 0xB85C, 0x0020]
       @ [0xC9C1, 0xC811, 0x0020, 0xD68C, 0xC2E0, 0xD574, 0xC8FC, 0xC138, 0xC694]
       @ js ''.</p>'' @ [0x000A]
     @ js ''          </div>'' @ [0x000A]
     @ js ''        </div>'' @ [0x000A]
     @ js ''      ''\<close>

definition json_response :: "headers \<Rightarrow> nat \<Rightarrow> (string \<times> json_value) list \<Rightarrow> response" where
  \<comment> \<open>\<^verbatim>\<open>new Response(JSON.stringify(obj), { status, headers: { ...corsHeaders,
      'Content-Type': 'application/json' } })\<close>\<close>
  "json_response cors st obj =
     \<lparr>resp_status = st, resp_headers = cors(''Content-Type'' \<mapsto> ''application/json''),
      resp_body = Some obj\<rparr>"

definition replace_newlines :: "jsstring \<Rightarrow> jsstring" where
  \<comment> \<open>\<^verbatim>\<open>.replace(/\n/g, '<br>')\<close>\<close>
  "replace_newlines s = concat (map (\<lambda>c. if c = 0x000A then js ''<br>'' else [c]) s)"

definition emailPayload :: "jsstring \<Rightarrow> jsstring \<Rightarrow> jsstring \<Rightarrow> jsstring \<Rightarrow> email_payload" where
  "emailPayload nm em sj msg =
     \<lparr>payload_from = ''mastery0621@gmail.com'',
      payload_to = [''mastery0621@gmail.com''],
      payload_subject = subjectPrefix @ sj,
      payload_html =
        html_part0 @ nm @ html_part1 @ em @ html_part2 @ sj @ html_part3
        @ replace_newlines msg @ html_part4\<rparr>"

definition caught ::
  "relay_env \<Rightarrow> thrown \<Rightarrow> provider_request list \<Rightarrow> relay_run" where
  \<comment> \<open>the \<^verbatim>\<open>catch\<close> block\<close>
  "caught env err reqs =
     \<lparr>response =
        json_response (corsHeaders env) 500
          [(''error'', JString (js ''Internal server error'')),
           (''message'', JString relayFailureMessage)],
      fetched = reqs,
      logged = [ConsoleError ''Error sending email:'' (Caught err)]\<rparr>"

definition resend_request :: "jsstring \<Rightarrow> email_payload \<Rightarrow> provider_request" where
  \<comment> \<open>the arguments of \<^verbatim>\<open>fetch\<close>\<close>
  "resend_request resendApiKey payload =
     \<lparr>url = ''https://api.resend.com/emails'', fetch_method = ''POST'',
      authorization = js ''Bearer '' @ resendApiKey,
      content_type = ''application/json'',
      fetch_body = payload\<rparr>"

definition deliver :: "relay_env \<Rightarrow> provider_request \<Rightarrow> relay_run" where
  \<comment> \<open>from \<^verbatim>\<open>await fetch(...)\<close> to the end of the \<^verbatim>\<open>try\<close> block\<close>
  "deliver env call =
     (case fetch env call of
        FetchThrows \<Rightarrow> caught env FetchError [call]
      | FetchResponse is_ok None \<Rightarrow> caught env ResponseJsonError [call]
      | FetchResponse is_ok (Some result) \<Rightarrow>
          (if \<not> is_ok then
             \<lparr>response =
                json_response (corsHeaders env) 500
                  [(''error'', JString (js ''Failed to send email'')),
                   (''details'',
                    JString
                      (if falsy (result ''message'') then js ''Unknown error''
                       else toString (result ''message'')))],
              fetched = [call],
              logged = [ConsoleError ''Resend API error:'' (Json result)]\<rparr>
           else
             \<lparr>response =
                json_response (corsHeaders env) 200
                  ([(''success'', JBool True), (''message'', JString relaySuccessMessage)]
                   @ (case result ''id'' of None \<Rightarrow> [] | Some i \<Rightarrow> [(''id'', JString i)])),
              fetched = [call],
              logged = [ConsoleLog ''Email sent successfully:'' (Json result)]\<rparr>))"

definition handler :: "relay_env \<Rightarrow> request \<Rightarrow> relay_run" where
  "handler env req =
     (if req_method req = ''OPTIONS'' then
        \<lparr>response = \<lparr>resp_status = 200, resp_headers = corsHeaders env, resp_body = None\<rparr>,
         fetched = [], logged = []\<rparr>
      else if req_method req \<noteq> ''POST'' then
        \<lparr>response =
           json_response (corsHeaders env) 405
             [(''error'', JString (js ''Method not allowed''))],
         fetched = [], logged = []\<rparr>
      else
        (case req_json req of
           None \<Rightarrow> caught env RequestJsonError []
         | Some body \<Rightarrow>
             (if falsy (body ''name'') \<or> falsy (body ''email'') \<or> falsy (body ''subject'')
                 \<or> falsy (body ''message'')
              then
                \<lparr>response =
                   json_response (corsHeaders env) 400
                     [(''error'', JString (js ''All fields are required''))],
                 fetched = [], logged = []\<rparr>
              else if \<not> regex_test emailRegex (toString (body ''email'')) then
                \<lparr>response =
                   json_response (corsHeaders env) 400
                     [(''error'', JString (js ''Invalid email format''))],
                 fetched = [], logged = []\<rparr>
              else if falsy (RESEND_API_KEY env) then
                \<lparr>response =
                   json_response (corsHeaders env) 500
                     [(''error'', JString (js ''Email service not configured''))],
                 fetched = [],
                 logged =
                   [ConsoleError ''RESEND_API_KEY not found in environment variables'' NoDetail]\<rparr>
              else
                (case body ''message'' of
                   None \<Rightarrow> caught env TypeError []
                 | Some msg \<Rightarrow>
                     deliver env
                       (resend_request (toString (RESEND_API_KEY env))
                          (emailPayload (toString (body ''name'')) (toString (body ''email''))
                             (toString (body ''subject'')) msg))))))"

section \<open>Example data\<close>

text \<open>A form that passes validation, and a relay environment whose provider accepts.\<close>

definition sample_form :: FormData where
  "sample_form =
     \<lparr>name = js ''Kim'', email = js ''kim@example.com'', subject = js ''Hello'',
      message = js ''A question about the site.''\<rparr>"

definition sample_state :: "FormData \<Rightarrow> app_state" where
  "sample_state fd = initial_state\<lparr>formData := fd\<rparr>"

definition sample_post :: "FormData \<Rightarrow> request" where
  "sample_post fd =
     \<lparr>req_method = ''POST'',
      req_json =
        Some [''name'' \<mapsto> name fd, ''email'' \<mapsto> email fd, ''subject'' \<mapsto> subject fd,
              ''message'' \<mapsto> message fd]\<rparr>"

definition sample_env :: "jsstring option \<Rightarrow> relay_env" where
  "sample_env key =
     \<lparr>corsHeaders = [''Access-Control-Allow-Origin'' \<mapsto> ''*''],
      RESEND_API_KEY = key,
      fetch = (\<lambda>call. FetchResponse True (Some [''id'' \<mapsto> js ''msg_1'']))\<rparr>"

section \<open>Auxiliary facts\<close>

subsection \<open>The matcher and the email pattern\<close>

lemma regex_test_Lit:
  "regex_test (Lit c # r) s \<longleftrightarrow> (\<exists>xs. s = c # xs \<and> regex_test r xs)"
  by (cases s) auto

lemma regex_test_ClassPlus:
  "regex_test (ClassPlus p # r) s \<longleftrightarrow>
     (\<exists>a b. s = a @ b \<and> a \<noteq> [] \<and> list_all p a \<and> regex_test r b)"
proof (induction s)
  case Nil
  then show ?case by simp
next
  case (Cons x xs)
  show ?case
  proof
    assume "regex_test (ClassPlus p # r) (x # xs)"
    then have px: "p x" and alt: "regex_test (ClassPlus p # r) xs \<or> regex_test r xs"
      by simp_all
    from alt show "\<exists>a b. x # xs = a @ b \<and> a \<noteq> [] \<and> list_all p a \<and> regex_test r b"
    proof
      assume "regex_test (ClassPlus p # r) xs"
      with Cons.IH obtain a b where "xs = a @ b" "list_all p a" "regex_test r b"
        by blast
      with px have "x # xs = (x # a) @ b \<and> x # a \<noteq> [] \<and> list_all p (x # a) \<and> regex_test r b"
        by simp
      then show ?thesis by blast
    next
      assume "regex_test r xs"
      with px have "x # xs = [x] @ xs \<and> [x] \<noteq> [] \<and> list_all p [x] \<and> regex_test r xs"
        by simp
      then show ?thesis by blast
    qed
  next
    assume "\<exists>a b. x # xs = a @ b \<and> a \<noteq> [] \<and> list_all p a \<and> regex_test r b"
    then obtain a b where ab: "x # xs = a @ b" "a \<noteq> []" "list_all p a" "regex_test r b"
      by blast
    then obtain a' where a: "a = x # a'"
      by (cases a) auto
    with ab have px: "p x" and xs: "xs = a' @ b" and pa': "list_all p a'"
      by simp_all
    show "regex_test (ClassPlus p # r) (x # xs)"
    proof (cases "a' = []")
      case True
      with xs ab(4) px show ?thesis by simp
    next
      case False
      with xs pa' ab(4) Cons.IH have "regex_test (ClassPlus p # r) xs"
        by blast
      with px show ?thesis by simp
    qed
  qed
qed

lemma validateEmail_iff:
  "validateEmail e \<longleftrightarrow>
     (\<exists>l d t. e = l @ [0x0040] @ d @ [0x002E] @ t \<and> l \<noteq> [] \<and> d \<noteq> [] \<and> t \<noteq> []
        \<and> list_all notSpaceAt l \<and> list_all notSpaceAt d \<and> list_all notSpaceAt t)"
  unfolding validateEmail_def emailRegex_def regex_test_ClassPlus regex_test_Lit regex_test.simps(1)
  by (auto; blast)

subsection \<open>Validation of the form\<close>

lemma all_field: "(\<forall>f. P f) \<longleftrightarrow> P Name \<and> P Email \<and> P Subject \<and> P Message"
  by (metis field.exhaust)

lemma validateForm_errors_Name:
  "errors (snd (validateForm s)) Name =
     (if trim (name (formData s)) = [] then Some (Some nameRequiredMessage) else None)"
  by (simp add: validateForm_def Let_def)

lemma validateForm_errors_Email:
  "errors (snd (validateForm s)) Email =
     (if trim (email (formData s)) = [] then Some (Some emailRequiredMessage)
      else if \<not> validateEmail (email (formData s)) then Some (Some emailFormatMessage)
      else None)"
  by (simp add: validateForm_def Let_def)

lemma validateForm_errors_Subject:
  "errors (snd (validateForm s)) Subject =
     (if trim (subject (formData s)) = [] then Some (Some subjectRequiredMessage) else None)"
  by (simp add: validateForm_def Let_def)

lemma validateForm_errors_Message:
  "errors (snd (validateForm s)) Message =
     (if trim (message (formData s)) = [] then Some (Some messageRequiredMessage)
      else if length (trim (message (formData s))) < 10 then Some (Some messageTooShortMessage)
      else None)"
  by (simp add: validateForm_def Let_def)

lemmas validateForm_errors =
  validateForm_errors_Name validateForm_errors_Email validateForm_errors_Subject
  validateForm_errors_Message

lemma validateForm_snd: "snd (validateForm s) = s\<lparr>errors := errors (snd (validateForm s))\<rparr>"
  by (simp add: validateForm_def Let_def)

lemma validateForm_fst:
  "fst (validateForm s) \<longleftrightarrow> keys (errors (snd (validateForm s))) = []"
  by (simp add: validateForm_def Let_def)

lemma keys_Nil_iff: "keys e = [] \<longleftrightarrow> (\<forall>f. e f = None)"
  by (simp add: keys_def all_field)

lemma errors_None_iff_valid:
  "errors (snd (validateForm s)) f = None \<longleftrightarrow> field_valid f (formData s)"
  by (cases f) (simp_all add: validateForm_errors)

lemma validateForm_valid: "fst (validateForm s) \<longleftrightarrow> (\<forall>f. field_valid f (formData s))"
  by (simp add: validateForm_fst keys_Nil_iff errors_None_iff_valid)

lemma validateForm_passes_errors:
  "fst (validateForm s) \<Longrightarrow> errors (snd (validateForm s)) = Map.empty"
  by (auto simp: validateForm_fst keys_Nil_iff)

lemma validateForm_ignores_errors:
  "errors (snd (validateForm (s\<lparr>errors := old\<rparr>))) = errors (snd (validateForm s))"
  by (simp add: validateForm_def Let_def)

lemma dropWhile_all_iff: "(\<forall>x\<in>set (dropWhile P s). P x) \<longleftrightarrow> dropWhile P s = []"
proof (cases "dropWhile P s")
  case Nil
  then show ?thesis by (simp only: list.set ball_empty simp_thms)
next
  case (Cons y ys)
  then have "\<not> P y"
    using hd_dropWhile [of P s] by simp
  with Cons show ?thesis by auto
qed

lemma trim_Nil_iff: "trim s = [] \<longleftrightarrow> (\<forall>c\<in>set s. isWhiteSpace c)"
  by (simp add: trim_def dropWhile_all_iff)

lemma validateEmail_trim: "validateEmail e \<Longrightarrow> trim e \<noteq> []"
proof -
  assume "validateEmail e"
  then obtain l r where e: "e = l @ r" and l: "l \<noteq> []" "list_all notSpaceAt l"
    unfolding validateEmail_iff by blast
  then obtain x l' where "l = x # l'" by (cases l) auto
  with l e have "x \<in> set e" "\<not> isWhiteSpace x"
    by (simp_all add: notSpaceAt_def)
  then show ?thesis
    unfolding trim_Nil_iff by blast
qed

lemma set_field_value: "field_value g (set_field f v fd) = (if g = f then v else field_value g fd)"
  by (cases f; cases g) simp_all

subsection \<open>Submission and delivery\<close>

lemma handleSubmit_invalid:
  "\<not> fst (validateForm s) \<Longrightarrow>
   handleSubmit send s =
     \<lparr>defaultPrevented = True, states = [s\<lparr>errors := errors (snd (validateForm s))\<rparr>],
      sent = [], console = []\<rparr>"
proof -
  assume bad: "\<not> fst (validateForm s)"
  obtain v s1 where vs: "validateForm s = (v, s1)"
    by (cases "validateForm s")
  with bad have v: "\<not> v"
    by simp
  from vs have "s\<lparr>errors := errors s1\<rparr> = s1"
    using validateForm_snd [of s] by simp
  with vs v show ?thesis
    by (simp add: handleSubmit_def)
qed

lemma handleSubmit_valid:
  "fst (validateForm s) \<Longrightarrow>
   handleSubmit send s =
     (case send (formData s) of
        Inr r \<Rightarrow>
          \<lparr>defaultPrevented = True,
           states =
             [s\<lparr>errors := Map.empty, status := Loading\<rparr>,
              \<lparr>formData = \<lparr>name = [], email = [], subject = [], message = []\<rparr>,
               errors = Map.empty, status = Success, statusMessage = submitSuccessMessage\<rparr>],
           sent = [formData s], console = []\<rparr>
      | Inl e \<Rightarrow>
          \<lparr>defaultPrevented = True,
           states =
             [s\<lparr>errors := Map.empty, status := Loading\<rparr>,
              s\<lparr>errors := Map.empty, status := Error, statusMessage := submitFailureMessage\<rparr>],
           sent = [formData s], console = [ConsoleError ''Email sending failed:'' e]\<rparr>)"
proof -
  assume ok: "fst (validateForm s)"
  then have "snd (validateForm s) = s\<lparr>errors := Map.empty\<rparr>"
    using validateForm_snd [of s] validateForm_passes_errors [of s] by simp
  with ok have "validateForm s = (True, s\<lparr>errors := Map.empty\<rparr>)"
    by (simp add: prod_eq_iff)
  then show ?thesis
    by (simp add: handleSubmit_def split: sum.splits)
qed

lemma deliver_fetched: "fetched (deliver env call) = [call]"
  by (simp add: deliver_def caught_def split: fetch_result.splits option.splits)

lemma deliver_status:
  "resp_status (response (deliver env call)) = 200
   \<or> resp_status (response (deliver env call)) = 500"
  by (simp add: deliver_def caught_def json_response_def split: fetch_result.splits option.splits)

lemma deliver_success:
  "fetch env call = FetchResponse True (Some result) \<Longrightarrow>
   deliver env call =
     \<lparr>response =
        json_response (corsHeaders env) 200
          ([(''success'', JBool True), (''message'', JString relaySuccessMessage)]
           @ (case result ''id'' of None \<Rightarrow> [] | Some i \<Rightarrow> [(''id'', JString i)])),
      fetched = [call],
      logged = [ConsoleLog ''Email sent successfully:'' (Json result)]\<rparr>"
  by (simp add: deliver_def)

lemma handler_forwards:
  assumes "req_method req = ''POST''" and "req_json req = Some body"
    and "body ''name'' = Some n" and "body ''email'' = Some e"
    and "body ''subject'' = Some sj" and "body ''message'' = Some m"
    and "n \<noteq> []" and "sj \<noteq> []" and "m \<noteq> []" and "validateEmail e"
    and "RESEND_API_KEY env = Some k" and "k \<noteq> []"
  shows "handler env req = deliver env (resend_request k (emailPayload n e sj m))"
proof -
  from assms(10) have "e \<noteq> []"
    using validateEmail_trim [of e] by (auto simp: trim_def)
  with assms show ?thesis
    by (simp add: handler_def falsy_def toString_def validateEmail_def)
qed

subsection \<open>Further facts about validation and the relay\<close>

lemma trim_nonempty: "trim x \<noteq> [] \<Longrightarrow> x \<noteq> []"
  by (auto simp: trim_def)

lemma keys_single:
  "e f \<noteq> None \<Longrightarrow> (\<forall>g. g \<noteq> f \<longrightarrow> e g = None) \<Longrightarrow> keys e = [f]"
  by (cases f) (auto simp: keys_def)

lemma validateForm_messages_nonempty:
  "errors (snd (validateForm s)) f = Some v \<Longrightarrow> \<exists>m. v = Some m \<and> m \<noteq> []"
  by (cases f)
    (auto simp: validateForm_errors nameRequiredMessage_def emailRequiredMessage_def
      emailFormatMessage_def subjectRequiredMessage_def messageRequiredMessage_def
      messageTooShortMessage_def split: if_splits)

lemma validateEmail_dot_after_at:
  assumes "validateEmail e"
  shows "0x002E \<in> set (dropWhile (\<lambda>c. c \<noteq> 0x0040) e)"
proof -
  from assms obtain l d t where e: "e = l @ [0x0040] @ d @ [0x002E] @ t"
    and l: "list_all notSpaceAt l"
    unfolding validateEmail_iff by blast
  from l have "\<forall>c\<in>set l. c \<noteq> 0x0040"
    by (simp add: list_all_iff notSpaceAt_def)
  then have "dropWhile (\<lambda>c. c \<noteq> 0x0040) e = 0x0040 # d @ 0x002E # t"
    unfolding e by (simp add: dropWhile_append)
  then show ?thesis by simp
qed

lemma deliver_not_400: "resp_status (response (deliver env call)) \<noteq> 400"
  using deliver_status [of env call] by auto

lemma handler_post:
  "req_method req = ''POST'' \<Longrightarrow> req_json req = Some body \<Longrightarrow>
   handler env req =
     (if falsy (body ''name'') \<or> falsy (body ''email'') \<or> falsy (body ''subject'')
         \<or> falsy (body ''message'')
      then
        \<lparr>response =
           json_response (corsHeaders env) 400
             [(''error'', JString (js ''All fields are required''))],
         fetched = [], logged = []\<rparr>
      else if \<not> regex_test emailRegex (toString (body ''email'')) then
        \<lparr>response =
           json_response (corsHeaders env) 400
             [(''error'', JString (js ''Invalid email format''))],
         fetched = [], logged = []\<rparr>
      else if falsy (RESEND_API_KEY env) then
        \<lparr>response =
           json_response (corsHeaders env) 500
             [(''error'', JString (js ''Email service not configured''))],
         fetched = [],
         logged =
           [ConsoleError ''RESEND_API_KEY not found in environment variables'' NoDetail]\<rparr>
      else
        (case body ''message'' of
           None \<Rightarrow> caught env TypeError []
         | Some msg \<Rightarrow>
             deliver env
               (resend_request (toString (RESEND_API_KEY env))
                  (emailPayload (toString (body ''name'')) (toString (body ''email''))
                     (toString (body ''subject'')) msg))))"
  by (simp add: handler_def)

lemma handler_post_status_400:
  assumes "req_method req = ''POST''" and "req_json req = Some body"
  shows "resp_status (response (handler env req)) = 400 \<longleftrightarrow>
           falsy (body ''name'') \<or> falsy (body ''email'') \<or> falsy (body ''subject'')
           \<or> falsy (body ''message'')
           \<or> \<not> regex_test emailRegex (toString (body ''email''))"
proof (cases "body ''message''")
  case None
  then show ?thesis
    by (simp add: handler_post [OF assms] json_response_def falsy_def)
next
  case (Some msg)
  then show ?thesis
    by (simp add: handler_post [OF assms] json_response_def deliver_not_400)
qed

section \<open>Properties of the form and of the relay\<close>

text \<open>
  \<^bold>\<open>C1.\<close> When the form passes validation and the awaited \<^verbatim>\<open>sendContactEmail\<close> returns,
  \<^verbatim>\<open>handleSubmit\<close> commits two states: first the status is loading, then it is success with
  the fixed success message and all four fields empty; the call received the form data as
  they were. When the relay receives these four values by POST, the credential is set and
  the provider answers ok with a JSON body carrying an id, the relay answers 200 with
  \<^verbatim>\<open>success: true\<close>, its fixed message and that id.
\<close>

theorem valid_submission_succeeds:
  assumes "fst (validateForm s)" and "sendContactEmail (formData s) = Inr r"
    and "req_method req = ''POST''" and "req_json req = Some body"
    and "body ''name'' = Some (name (formData s))"
    and "body ''email'' = Some (email (formData s))"
    and "body ''subject'' = Some (subject (formData s))"
    and "body ''message'' = Some (message (formData s))"
    and "RESEND_API_KEY env = Some k" and "k \<noteq> []"
    and "fetch env
           (resend_request k
              (emailPayload (name (formData s)) (email (formData s)) (subject (formData s))
                 (message (formData s))))
         = FetchResponse True (Some result)"
    and "result ''id'' = Some i"
  shows "handleSubmit sendContactEmail s =
           \<lparr>defaultPrevented = True,
            states =
              [s\<lparr>errors := Map.empty, status := Loading\<rparr>,
               \<lparr>formData = \<lparr>name = [], email = [], subject = [], message = []\<rparr>,
                errors = Map.empty, status = Success, statusMessage = submitSuccessMessage\<rparr>],
            sent = [formData s], console = []\<rparr>
         \<and> map status (s # states (handleSubmit sendContactEmail s))
             = [status s, Loading, Success]
         \<and> response (handler env req) =
             json_response (corsHeaders env) 200
               [(''success'', JBool True), (''message'', JString relaySuccessMessage),
                (''id'', JString i)]
         \<and> fetched (handler env req) =
             [resend_request k
                (emailPayload (name (formData s)) (email (formData s)) (subject (formData s))
                   (message (formData s)))]"
proof -
  let ?call = "resend_request k
      (emailPayload (name (formData s)) (email (formData s)) (subject (formData s))
         (message (formData s)))"
  have run: "handleSubmit sendContactEmail s =
      \<lparr>defaultPrevented = True,
       states =
         [s\<lparr>errors := Map.empty, status := Loading\<rparr>,
          \<lparr>formData = \<lparr>name = [], email = [], subject = [], message = []\<rparr>,
           errors = Map.empty, status = Success, statusMessage = submitSuccessMessage\<rparr>],
       sent = [formData s], console = []\<rparr>"
    using assms(1,2) by (simp add: handleSubmit_valid)
  from assms(1) have valid: "\<forall>f. field_valid f (formData s)"
    by (simp add: validateForm_valid)
  have ne: "name (formData s) \<noteq> []" "subject (formData s) \<noteq> []" "message (formData s) \<noteq> []"
    using valid [THEN spec, of Name] valid [THEN spec, of Subject] valid [THEN spec, of Message]
    by (auto dest: trim_nonempty)
  have em: "validateEmail (email (formData s))"
    using valid [THEN spec, of Email] by simp
  have "handler env req = deliver env ?call"
    using assms(3-8) ne em assms(9,10) by (rule handler_forwards)
  with assms(11,12) have relay: "handler env req =
      \<lparr>response =
         json_response (corsHeaders env) 200
           [(''success'', JBool True), (''message'', JString relaySuccessMessage),
            (''id'', JString i)],
       fetched = [?call],
       logged = [ConsoleLog ''Email sent successfully:'' (Json result)]\<rparr>"
    by (simp add: deliver_success)
  show ?thesis
    unfolding run relay by simp
qed

theorem valid_submission_succeeds_witness:
  "fst (validateForm (sample_state sample_form))
   \<and> map status
        (sample_state sample_form
         # states (handleSubmit (\<lambda>fd. Inr () :: unit + unit) (sample_state sample_form)))
      = [Idle, Loading, Success]
   \<and> last (states (handleSubmit (\<lambda>fd. Inr () :: unit + unit) (sample_state sample_form)))
      = \<lparr>formData = \<lparr>name = [], email = [], subject = [], message = []\<rparr>,
         errors = Map.empty, status = Success, statusMessage = submitSuccessMessage\<rparr>
   \<and> resp_status
        (response (handler (sample_env (Some (js ''re_key''))) (sample_post sample_form)))
      = 200
   \<and> resp_body
        (response (handler (sample_env (Some (js ''re_key''))) (sample_post sample_form)))
      = Some [(''success'', JBool True), (''message'', JString relaySuccessMessage),
              (''id'', JString (js ''msg_1''))]"
proof -
  let ?s = "sample_state sample_form"
  let ?send = "\<lambda>fd. Inr () :: unit + unit"
  let ?env = "sample_env (Some (js ''re_key''))"
  let ?req = "sample_post sample_form"
  let ?body = "[''name'' \<mapsto> name sample_form, ''email'' \<mapsto> email sample_form,
      ''subject'' \<mapsto> subject sample_form, ''message'' \<mapsto> message sample_form]"
  have fd: "formData ?s = sample_form"
    by (simp add: sample_state_def)
  have ok: "fst (validateForm ?s)"
    by code_simp
  have send: "?send (formData ?s) = Inr ()"
    by simp
  have post: "req_method ?req = ''POST''" "req_json ?req = Some ?body"
    by (simp_all add: sample_post_def)
  have body: "?body ''name'' = Some (name (formData ?s))"
    "?body ''email'' = Some (email (formData ?s))"
    "?body ''subject'' = Some (subject (formData ?s))"
    "?body ''message'' = Some (message (formData ?s))"
    by (simp_all add: fd)
  have key: "RESEND_API_KEY ?env = Some (js ''re_key'')" "js ''re_key'' \<noteq> []"
    by (simp_all add: sample_env_def js_def)
  have provider: "fetch ?env
      (resend_request (js ''re_key'')
         (emailPayload (name (formData ?s)) (email (formData ?s)) (subject (formData ?s))
            (message (formData ?s))))
      = FetchResponse True (Some [''id'' \<mapsto> js ''msg_1''])"
    "[''id'' \<mapsto> js ''msg_1''] ''id'' = Some (js ''msg_1'')"
    by (simp_all add: sample_env_def)
  note T = valid_submission_succeeds [OF ok send post body key provider]
  have idle: "status ?s = Idle"
    by (simp add: sample_state_def initial_state_def)
  show ?thesis
    using ok idle T by (simp add: json_response_def)
qed

text \<open>
  \<^bold>\<open>C2.\<close> When \<^verbatim>\<open>validateForm\<close> returns false, \<^verbatim>\<open>handleSubmit\<close> calls \<^verbatim>\<open>sendContactEmail\<close> not
  at all and commits one state, which differs from the old one in the field errors only.
  A field that is empty after trimming makes validation fail; and when exactly one field
  breaks its rule, exactly that field has an entry in the recorded errors.
\<close>

theorem invalid_form_is_not_sent:
  "(\<not> fst (validateForm s) \<longrightarrow>
      handleSubmit sendContactEmail s =
        \<lparr>defaultPrevented = True, states = [s\<lparr>errors := errors (snd (validateForm s))\<rparr>],
         sent = [], console = []\<rparr>)
   \<and> (trim (field_value f (formData s)) = [] \<longrightarrow> \<not> fst (validateForm s))
   \<and> (\<not> field_valid f (formData s) \<and> (\<forall>g. g \<noteq> f \<longrightarrow> field_valid g (formData s)) \<longrightarrow>
        \<not> fst (validateForm s) \<and> keys (errors (snd (validateForm s))) = [f])"
proof (intro conjI impI)
  assume "\<not> fst (validateForm s)"
  then show "handleSubmit sendContactEmail s =
        \<lparr>defaultPrevented = True, states = [s\<lparr>errors := errors (snd (validateForm s))\<rparr>],
         sent = [], console = []\<rparr>"
    by (rule handleSubmit_invalid)
next
  assume "trim (field_value f (formData s)) = []"
  then have "\<not> field_valid f (formData s)"
    by (cases f) simp_all
  then show "\<not> fst (validateForm s)"
    by (auto simp: validateForm_valid)
next
  assume one: "\<not> field_valid f (formData s) \<and> (\<forall>g. g \<noteq> f \<longrightarrow> field_valid g (formData s))"
  then show "\<not> fst (validateForm s)"
    by (auto simp: validateForm_valid)
next
  assume one: "\<not> field_valid f (formData s) \<and> (\<forall>g. g \<noteq> f \<longrightarrow> field_valid g (formData s))"
  then have "errors (snd (validateForm s)) f \<noteq> None"
    and "\<forall>g. g \<noteq> f \<longrightarrow> errors (snd (validateForm s)) g = None"
    by (simp_all add: errors_None_iff_valid)
  then show "keys (errors (snd (validateForm s))) = [f]"
    by (rule keys_single)
qed

theorem invalid_form_is_not_sent_witness:
  "map (\<lambda>f. fst (validateForm (sample_state (set_field f [] sample_form))))
      [Name, Email, Subject, Message]
    = [False, False, False, False]
   \<and> map (\<lambda>f. keys (errors (snd (validateForm (sample_state (set_field f [] sample_form))))))
      [Name, Email, Subject, Message]
    = [[Name], [Email], [Subject], [Message]]
   \<and> map (\<lambda>f. sent (handleSubmit (\<lambda>fd. Inr () :: unit + unit)
                      (sample_state (set_field f [] sample_form))))
      [Name, Email, Subject, Message]
    = [[], [], [], []]
   \<and> map (\<lambda>f. map (\<lambda>t. (status t, statusMessage t))
                 (states (handleSubmit (\<lambda>fd. Inr () :: unit + unit)
                            (sample_state (set_field f [] sample_form)))))
      [Name, Email, Subject, Message]
    = [[(Idle, [])], [(Idle, [])], [(Idle, [])], [(Idle, [])]]"
proof -
  let ?send = "\<lambda>fd. Inr () :: unit + unit"
  have one: "\<not> fst (validateForm (sample_state (set_field f [] sample_form)))
      \<and> keys (errors (snd (validateForm (sample_state (set_field f [] sample_form))))) = [f]
      \<and> sent (handleSubmit ?send (sample_state (set_field f [] sample_form))) = []
      \<and> map (\<lambda>t. (status t, statusMessage t))
           (states (handleSubmit ?send (sample_state (set_field f [] sample_form))))
         = [(Idle, [])]" for f
  proof -
    let ?s = "sample_state (set_field f [] sample_form)"
    have empty: "trim (field_value f (formData ?s)) = []"
      by (cases f) (simp_all add: sample_state_def trim_def)
    have "\<forall>f' \<in> set [Name, Email, Subject, Message].
        \<forall>g' \<in> set [Name, Email, Subject, Message].
          field_valid g' (formData (sample_state (set_field f' [] sample_form))) = (g' \<noteq> f')"
      by code_simp
    moreover have "h \<in> set [Name, Email, Subject, Message]" for h
      by (cases h) simp_all
    ultimately have valid: "field_valid g (formData ?s) \<longleftrightarrow> g \<noteq> f" for g
      by blast
    then have hyp: "\<not> field_valid f (formData ?s)
        \<and> (\<forall>g. g \<noteq> f \<longrightarrow> field_valid g (formData ?s))"
      by simp
    note T = invalid_form_is_not_sent [of ?s ?send f]
    from T empty have bad: "\<not> fst (validateForm ?s)"
      by blast
    from T hyp have single: "keys (errors (snd (validateForm ?s))) = [f]"
      by blast
    from T bad have run: "handleSubmit ?send ?s
        = \<lparr>defaultPrevented = True,
           states = [?s\<lparr>errors := errors (snd (validateForm ?s))\<rparr>],
           sent = [], console = []\<rparr>"
      by blast
    have "sent (handleSubmit ?send ?s) = []"
      and "map (\<lambda>t. (status t, statusMessage t)) (states (handleSubmit ?send ?s))
         = [(Idle, [])]"
      unfolding run by (simp_all add: sample_state_def initial_state_def)
    with bad single show ?thesis
      by blast
  qed
  show ?thesis
    using one [of Name] one [of Email] one [of Subject] one [of Message] by simp
qed

text \<open>
  \<^bold>\<open>C3.\<close> The relay decides in this order. An OPTIONS request gets 200 without a body, whatever
  the body, the credential or the provider are. Any other method than POST gets 405. A POST
  whose parsed body lacks one of the four fields, or has it empty, gets 400 "All fields are
  required". With the four fields present, an email that fails the pattern gets 400
  "Invalid email format". With a well-formed email, an absent (or empty) credential gets 500
  "Email service not configured". In none of these cases is the provider called.
\<close>

theorem handler_short_circuits:
  "(req_method req = ''OPTIONS'' \<longrightarrow>
      handler env req =
        \<lparr>response = \<lparr>resp_status = 200, resp_headers = corsHeaders env, resp_body = None\<rparr>,
         fetched = [], logged = []\<rparr>)
   \<and> (req_method req \<noteq> ''OPTIONS'' \<and> req_method req \<noteq> ''POST'' \<longrightarrow>
        resp_status (response (handler env req)) = 405
        \<and> resp_body (response (handler env req))
            = Some [(''error'', JString (js ''Method not allowed''))]
        \<and> fetched (handler env req) = [])
   \<and> (req_method req = ''POST'' \<and> req_json req = Some body
        \<and> (falsy (body ''name'') \<or> falsy (body ''email'') \<or> falsy (body ''subject'')
             \<or> falsy (body ''message'')) \<longrightarrow>
        resp_status (response (handler env req)) = 400
        \<and> resp_body (response (handler env req))
            = Some [(''error'', JString (js ''All fields are required''))]
        \<and> fetched (handler env req) = [])
   \<and> (req_method req = ''POST'' \<and> req_json req = Some body
        \<and> \<not> falsy (body ''name'') \<and> body ''email'' = Some e \<and> e \<noteq> []
        \<and> \<not> falsy (body ''subject'') \<and> \<not> falsy (body ''message'')
        \<and> \<not> regex_test emailRegex e \<longrightarrow>
        resp_status (response (handler env req)) = 400
        \<and> resp_body (response (handler env req))
            = Some [(''error'', JString (js ''Invalid email format''))]
        \<and> fetched (handler env req) = [])
   \<and> (req_method req = ''POST'' \<and> req_json req = Some body
        \<and> \<not> falsy (body ''name'') \<and> body ''email'' = Some e \<and> e \<noteq> []
        \<and> \<not> falsy (body ''subject'') \<and> \<not> falsy (body ''message'')
        \<and> regex_test emailRegex e \<and> falsy (RESEND_API_KEY env) \<longrightarrow>
        resp_status (response (handler env req)) = 500
        \<and> resp_body (response (handler env req))
            = Some [(''error'', JString (js ''Email service not configured''))]
        \<and> fetched (handler env req) = [])"
proof (intro conjI impI)
  assume "req_method req = ''OPTIONS''"
  then show "handler env req =
        \<lparr>response = \<lparr>resp_status = 200, resp_headers = corsHeaders env, resp_body = None\<rparr>,
         fetched = [], logged = []\<rparr>"
    by (simp add: handler_def)
next
  assume m: "req_method req \<noteq> ''OPTIONS'' \<and> req_method req \<noteq> ''POST''"
  then show "resp_status (response (handler env req)) = 405"
    and "resp_body (response (handler env req))
            = Some [(''error'', JString (js ''Method not allowed''))]"
    and "fetched (handler env req) = []"
    by (simp_all add: handler_def json_response_def)
next
  assume h: "req_method req = ''POST'' \<and> req_json req = Some body
        \<and> (falsy (body ''name'') \<or> falsy (body ''email'') \<or> falsy (body ''subject'')
             \<or> falsy (body ''message''))"
  then have eq: "handler env req =
        \<lparr>response =
           json_response (corsHeaders env) 400
             [(''error'', JString (js ''All fields are required''))],
         fetched = [], logged = []\<rparr>"
    using handler_post [of req body env] by auto
  show "resp_status (response (handler env req)) = 400"
    and "resp_body (response (handler env req))
            = Some [(''error'', JString (js ''All fields are required''))]"
    and "fetched (handler env req) = []"
    unfolding eq by (simp_all add: json_response_def)
next
  assume h: "req_method req = ''POST'' \<and> req_json req = Some body
        \<and> \<not> falsy (body ''name'') \<and> body ''email'' = Some e \<and> e \<noteq> []
        \<and> \<not> falsy (body ''subject'') \<and> \<not> falsy (body ''message'')
        \<and> \<not> regex_test emailRegex e"
  then have eq: "handler env req =
        \<lparr>response =
           json_response (corsHeaders env) 400
             [(''error'', JString (js ''Invalid email format''))],
         fetched = [], logged = []\<rparr>"
    using handler_post [of req body env] by (simp add: falsy_def toString_def)
  show "resp_status (response (handler env req)) = 400"
    and "resp_body (response (handler env req))
            = Some [(''error'', JString (js ''Invalid email format''))]"
    and "fetched (handler env req) = []"
    unfolding eq by (simp_all add: json_response_def)
next
  assume h: "req_method req = ''POST'' \<and> req_json req = Some body
        \<and> \<not> falsy (body ''name'') \<and> body ''email'' = Some e \<and> e \<noteq> []
        \<and> \<not> falsy (body ''subject'') \<and> \<not> falsy (body ''message'')
        \<and> regex_test emailRegex e \<and> falsy (RESEND_API_KEY env)"
  then have eq: "handler env req =
        \<lparr>response =
           json_response (corsHeaders env) 500
             [(''error'', JString (js ''Email service not configured''))],
         fetched = [],
         logged =
           [ConsoleError ''RESEND_API_KEY not found in environment variables'' NoDetail]\<rparr>"
    using handler_post [of req body env] by (simp add: falsy_def toString_def)
  show "resp_status (response (handler env req)) = 500"
    and "resp_body (response (handler env req))
            = Some [(''error'', JString (js ''Email service not configured''))]"
    and "fetched (handler env req) = []"
    unfolding eq by (simp_all add: json_response_def)
qed

theorem handler_short_circuits_witness:
  "resp_status (response (handler (sample_env None)
       \<lparr>req_method = ''OPTIONS'', req_json = Some [''name'' \<mapsto> []]\<rparr>)) = 200
   \<and> resp_body (response (handler (sample_env None)
       \<lparr>req_method = ''OPTIONS'', req_json = Some [''name'' \<mapsto> []]\<rparr>)) = None
   \<and> resp_status (response (handler (sample_env None)
       \<lparr>req_method = ''GET'', req_json = None\<rparr>)) = 405
   \<and> resp_status (response (handler (sample_env None)
       \<lparr>req_method = ''POST'', req_json = Some [''name'' \<mapsto> js ''Kim'']\<rparr>)) = 400
   \<and> resp_body (response (handler (sample_env None)
       \<lparr>req_method = ''POST'', req_json = Some [''name'' \<mapsto> js ''Kim'']\<rparr>))
      = Some [(''error'', JString (js ''All fields are required''))]
   \<and> resp_status (response (handler (sample_env None)
       (sample_post (sample_form\<lparr>subject := []\<rparr>)))) = 400
   \<and> resp_body (response (handler (sample_env None)
       (sample_post (sample_form\<lparr>email := js ''kim.example.com''\<rparr>))))
      = Some [(''error'', JString (js ''Invalid email format''))]
   \<and> resp_status (response (handler (sample_env None) (sample_post sample_form))) = 500
   \<and> resp_body (response (handler (sample_env None) (sample_post sample_form)))
      = Some [(''error'', JString (js ''Email service not configured''))]
   \<and> fetched (handler (sample_env None) (sample_post sample_form)) = []"
proof -
  let ?env = "sample_env None"
  let ?options = "\<lparr>req_method = ''OPTIONS'', req_json = Some [''name'' \<mapsto> []]\<rparr>"
  let ?get = "\<lparr>req_method = ''GET'', req_json = None\<rparr>"
  let ?partial = "\<lparr>req_method = ''POST'', req_json = Some [''name'' \<mapsto> js ''Kim'']\<rparr>"
  have body_of: "req_method (sample_post fd) = ''POST''
      \<and> req_json (sample_post fd) =
          Some [''name'' \<mapsto> name fd, ''email'' \<mapsto> email fd, ''subject'' \<mapsto> subject fd,
                ''message'' \<mapsto> message fd]" for fd
    by (simp add: sample_post_def)
  have "req_method ?options = ''OPTIONS''"
    by simp
  then have a: "handler ?env ?options =
      \<lparr>response = \<lparr>resp_status = 200, resp_headers = corsHeaders ?env, resp_body = None\<rparr>,
       fetched = [], logged = []\<rparr>"
    using handler_short_circuits [where req = ?options and env = ?env, THEN conjunct1]
    by (rule rev_mp)
  have "req_method ?get \<noteq> ''OPTIONS'' \<and> req_method ?get \<noteq> ''POST''"
    by simp
  then have b: "resp_status (response (handler ?env ?get)) = 405"
    using handler_short_circuits [where req = ?get and env = ?env,
        THEN conjunct2, THEN conjunct1]
    by blast
  have "req_method ?partial = ''POST'' \<and> req_json ?partial = Some [''name'' \<mapsto> js ''Kim'']
      \<and> (falsy ([''name'' \<mapsto> js ''Kim''] ''name'') \<or> falsy ([''name'' \<mapsto> js ''Kim''] ''email'')
         \<or> falsy ([''name'' \<mapsto> js ''Kim''] ''subject'')
         \<or> falsy ([''name'' \<mapsto> js ''Kim''] ''message''))"
    by (simp add: falsy_def)
  then have c: "resp_status (response (handler ?env ?partial)) = 400
      \<and> resp_body (response (handler ?env ?partial))
         = Some [(''error'', JString (js ''All fields are required''))]"
    using handler_short_circuits [where req = ?partial and env = ?env
        and body = "[''name'' \<mapsto> js ''Kim'']", THEN conjunct2, THEN conjunct2, THEN conjunct1]
    by blast
  let ?fd1 = "sample_form\<lparr>subject := []\<rparr>"
  let ?b1 = "[''name'' \<mapsto> name ?fd1, ''email'' \<mapsto> email ?fd1, ''subject'' \<mapsto> subject ?fd1,
      ''message'' \<mapsto> message ?fd1]"
  have "falsy (?b1 ''subject'')"
    by (simp add: falsy_def)
  with body_of [of ?fd1] have d: "resp_status (response (handler ?env (sample_post ?fd1))) = 400"
    using handler_short_circuits [where req = "sample_post ?fd1" and env = ?env
        and body = ?b1, THEN conjunct2, THEN conjunct2, THEN conjunct1]
    by blast
  let ?fd2 = "sample_form\<lparr>email := js ''kim.example.com''\<rparr>"
  let ?b2 = "[''name'' \<mapsto> name ?fd2, ''email'' \<mapsto> email ?fd2, ''subject'' \<mapsto> subject ?fd2,
      ''message'' \<mapsto> message ?fd2]"
  have "\<not> falsy (?b2 ''name'') \<and> ?b2 ''email'' = Some (js ''kim.example.com'')
      \<and> js ''kim.example.com'' \<noteq> [] \<and> \<not> falsy (?b2 ''subject'') \<and> \<not> falsy (?b2 ''message'')"
    by (simp add: falsy_def sample_form_def js_def)
  moreover have "\<not> regex_test emailRegex (js ''kim.example.com'')"
    by code_simp
  ultimately have e: "resp_body (response (handler ?env (sample_post ?fd2)))
      = Some [(''error'', JString (js ''Invalid email format''))]"
    using body_of [of ?fd2]
      handler_short_circuits [where req = "sample_post ?fd2" and env = ?env and body = ?b2
        and e = "js ''kim.example.com''",
        THEN conjunct2, THEN conjunct2, THEN conjunct2, THEN conjunct1]
    by blast
  let ?b3 = "[''name'' \<mapsto> name sample_form, ''email'' \<mapsto> email sample_form,
      ''subject'' \<mapsto> subject sample_form, ''message'' \<mapsto> message sample_form]"
  have "\<not> falsy (?b3 ''name'') \<and> ?b3 ''email'' = Some (email sample_form)
      \<and> email sample_form \<noteq> [] \<and> \<not> falsy (?b3 ''subject'') \<and> \<not> falsy (?b3 ''message'')"
    by (simp add: falsy_def sample_form_def js_def)
  moreover have "regex_test emailRegex (email sample_form)"
    by code_simp
  moreover have "falsy (RESEND_API_KEY ?env)"
    by (simp add: falsy_def sample_env_def)
  ultimately have f: "resp_status (response (handler ?env (sample_post sample_form))) = 500
      \<and> resp_body (response (handler ?env (sample_post sample_form)))
         = Some [(''error'', JString (js ''Email service not configured''))]
      \<and> fetched (handler ?env (sample_post sample_form)) = []"
    using body_of [of sample_form]
      handler_short_circuits [where req = "sample_post sample_form" and env = ?env
        and body = ?b3 and e = "email sample_form",
        THEN conjunct2, THEN conjunct2, THEN conjunct2, THEN conjunct2]
    by blast
  show ?thesis
    unfolding a using b c d e f by simp
qed

text \<open>
  \<^bold>\<open>C4.\<close> The form accepts an email value (records no error for the field) exactly when the
  pattern matches it, and so does the relay (given the other three fields, it answers 400
  exactly when the pattern does not match): both accept the same strings. A string without
  "@", or without "." after its first "@", is rejected; a string made of three non-empty
  runs of characters that are neither white space nor "@", joined by "@" and ".", is
  accepted.
\<close>

theorem email_checks_agree:
  assumes "req_method req = ''POST''" and "req_json req = Some body"
    and "\<not> falsy (body ''name'')" and "body ''email'' = Some e"
    and "\<not> falsy (body ''subject'')" and "\<not> falsy (body ''message'')"
    and "email (formData s) = e"
  shows "(errors (snd (validateForm s)) Email = None \<longleftrightarrow> validateEmail e)
         \<and> (resp_status (response (handler env req)) \<noteq> 400 \<longleftrightarrow> validateEmail e)
         \<and> (0x0040 \<notin> set e \<longrightarrow> \<not> validateEmail e)
         \<and> (0x002E \<notin> set (dropWhile (\<lambda>c. c \<noteq> 0x0040) e) \<longrightarrow> \<not> validateEmail e)
         \<and> (\<forall>a b c. e = a @ 0x0040 # b @ 0x002E # c \<and> a \<noteq> [] \<and> b \<noteq> [] \<and> c \<noteq> []
                \<and> list_all notSpaceAt (a @ b @ c) \<longrightarrow> validateEmail e)"
proof (intro conjI)
  show "errors (snd (validateForm s)) Email = None \<longleftrightarrow> validateEmail e"
    using assms(7) validateEmail_trim [of e] by (auto simp: validateForm_errors_Email)
next
  have "validateEmail e \<Longrightarrow> e \<noteq> []"
    using validateEmail_trim [of e] by (auto dest: trim_nonempty)
  then show "resp_status (response (handler env req)) \<noteq> 400 \<longleftrightarrow> validateEmail e"
    using assms(3-6)
    by (auto simp: handler_post_status_400 [OF assms(1,2)] toString_def falsy_def
        validateEmail_def)
next
  show "0x0040 \<notin> set e \<longrightarrow> \<not> validateEmail e"
  proof (intro impI notI)
    assume no_at: "0x0040 \<notin> set e" and "validateEmail e"
    then have "0x002E \<in> set (dropWhile (\<lambda>c. c \<noteq> 0x0040) e)"
      by (simp only: validateEmail_dot_after_at)
    moreover from no_at have "dropWhile (\<lambda>c. c \<noteq> 0x0040) e = []"
      by auto
    ultimately show False
      by (simp only: list.set empty_iff)
  qed
next
  show "0x002E \<notin> set (dropWhile (\<lambda>c. c \<noteq> 0x0040) e) \<longrightarrow> \<not> validateEmail e"
    using validateEmail_dot_after_at [of e] by blast
next
  show "\<forall>a b c. e = a @ 0x0040 # b @ 0x002E # c \<and> a \<noteq> [] \<and> b \<noteq> [] \<and> c \<noteq> []
          \<and> list_all notSpaceAt (a @ b @ c) \<longrightarrow> validateEmail e"
    unfolding validateEmail_iff by (intro allI impI) (rule exI conjI | simp)+
qed

theorem email_checks_agree_witness:
  "validateEmail (js ''a@b.c'')
   \<and> errors (snd (validateForm (sample_state (sample_form\<lparr>email := js ''a@b.c''\<rparr>)))) Email
      = None
   \<and> resp_status (response (handler (sample_env None)
        (sample_post (sample_form\<lparr>email := js ''a@b.c''\<rparr>)))) \<noteq> 400
   \<and> \<not> validateEmail (js ''ab.c'')
   \<and> errors (snd (validateForm (sample_state (sample_form\<lparr>email := js ''ab.c''\<rparr>)))) Email
      \<noteq> None
   \<and> resp_status (response (handler (sample_env None)
        (sample_post (sample_form\<lparr>email := js ''ab.c''\<rparr>)))) = 400
   \<and> \<not> validateEmail (js ''a@bc'')
   \<and> errors (snd (validateForm (sample_state (sample_form\<lparr>email := js ''a@bc''\<rparr>)))) Email
      \<noteq> None
   \<and> resp_status (response (handler (sample_env None)
        (sample_post (sample_form\<lparr>email := js ''a@bc''\<rparr>)))) = 400"
proof -
  let ?env = "sample_env None"
  have T: "(errors (snd (validateForm (sample_state (sample_form\<lparr>email := e\<rparr>)))) Email = None
        \<longleftrightarrow> validateEmail e)
      \<and> (resp_status (response (handler ?env (sample_post (sample_form\<lparr>email := e\<rparr>)))) \<noteq> 400
        \<longleftrightarrow> validateEmail e)
      \<and> (0x0040 \<notin> set e \<longrightarrow> \<not> validateEmail e)
      \<and> (0x002E \<notin> set (dropWhile (\<lambda>c. c \<noteq> 0x0040) e) \<longrightarrow> \<not> validateEmail e)
      \<and> (\<forall>a b c. e = a @ 0x0040 # b @ 0x002E # c \<and> a \<noteq> [] \<and> b \<noteq> [] \<and> c \<noteq> []
            \<and> list_all notSpaceAt (a @ b @ c) \<longrightarrow> validateEmail e)" for e
  proof -
    let ?fd = "sample_form\<lparr>email := e\<rparr>"
    let ?body = "[''name'' \<mapsto> name ?fd, ''email'' \<mapsto> email ?fd, ''subject'' \<mapsto> subject ?fd,
      ''message'' \<mapsto> message ?fd]"
    have post: "req_method (sample_post ?fd) = ''POST''" "req_json (sample_post ?fd) = Some ?body"
      by (simp_all add: sample_post_def)
    have fields: "\<not> falsy (?body ''name'')" "?body ''email'' = Some e"
      "\<not> falsy (?body ''subject'')" "\<not> falsy (?body ''message'')"
      by (simp_all add: falsy_def sample_form_def js_def)
    have form: "email (formData (sample_state ?fd)) = e"
      by (simp add: sample_state_def)
    show ?thesis
      by (rule email_checks_agree [OF post fields form])
  qed
  have "js ''a@b.c'' = js ''a'' @ 0x0040 # js ''b'' @ 0x002E # js ''c''
      \<and> js ''a'' \<noteq> [] \<and> js ''b'' \<noteq> [] \<and> js ''c'' \<noteq> []"
    by (simp add: js_def)
  moreover have "list_all notSpaceAt (js ''a'' @ js ''b'' @ js ''c'')"
    by code_simp
  ultimately have ok: "validateEmail (js ''a@b.c'')"
    using T [of "js ''a@b.c''"] by blast
  have "0x0040 \<notin> set (js ''ab.c'')"
    by code_simp
  then have no_at: "\<not> validateEmail (js ''ab.c'')"
    using T [of "js ''ab.c''"] by blast
  have "0x002E \<notin> set (dropWhile (\<lambda>c. c \<noteq> 0x0040) (js ''a@bc''))"
    by code_simp
  then have no_dot: "\<not> validateEmail (js ''a@bc'')"
    using T [of "js ''a@bc''"] by blast
  show ?thesis
    using ok no_at no_dot T [of "js ''a@b.c''"] T [of "js ''ab.c''"] T [of "js ''a@bc''"]
    by blast
qed

text \<open>
  \<^bold>\<open>C5.\<close> \<^verbatim>\<open>validateForm\<close> applies the rule of every field whatever the other fields hold: the
  new mapping has, at each field, exactly the violation of that field (none when the field
  is acceptable); it replaces the old mapping, whose content plays no part; nothing else
  of the state changes; and the result is \<open>True\<close> exactly when no field has an error.
\<close>

theorem validateForm_checks_every_field:
  "snd (validateForm s) = s\<lparr>errors := errors (snd (validateForm s))\<rparr>
   \<and> errors (snd (validateForm s)) Name =
       (if trim (name (formData s)) = [] then Some (Some nameRequiredMessage) else None)
   \<and> errors (snd (validateForm s)) Email =
       (if trim (email (formData s)) = [] then Some (Some emailRequiredMessage)
        else if \<not> validateEmail (email (formData s)) then Some (Some emailFormatMessage)
        else None)
   \<and> errors (snd (validateForm s)) Subject =
       (if trim (subject (formData s)) = [] then Some (Some subjectRequiredMessage) else None)
   \<and> errors (snd (validateForm s)) Message =
       (if trim (message (formData s)) = [] then Some (Some messageRequiredMessage)
        else if length (trim (message (formData s))) < 10
          then Some (Some messageTooShortMessage)
        else None)
   \<and> errors (snd (validateForm (s\<lparr>errors := old\<rparr>))) = errors (snd (validateForm s))
   \<and> (\<forall>f. errors (snd (validateForm s)) f = None \<longleftrightarrow> field_valid f (formData s))
   \<and> (fst (validateForm s) \<longleftrightarrow> (\<forall>f. errors (snd (validateForm s)) f = None))"
proof -
  have "snd (validateForm s) = s\<lparr>errors := errors (snd (validateForm s))\<rparr>"
    by (rule validateForm_snd)
  moreover have "fst (validateForm s) \<longleftrightarrow> (\<forall>f. errors (snd (validateForm s)) f = None)"
    by (simp only: validateForm_fst keys_Nil_iff)
  ultimately show ?thesis
    using validateForm_errors [of s] validateForm_ignores_errors [where s = s and old = old]
      errors_None_iff_valid [of s]
    by blast
qed

theorem validateForm_checks_every_field_witness:
  "\<not> fst (validateForm (initial_state\<lparr>formData :=
      \<lparr>name = js ''   '', email = js ''kim.example.com'', subject = js ''Hello'',
       message = js ''Too short''\<rparr>, errors := [Subject \<mapsto> Some subjectRequiredMessage]\<rparr>))
   \<and> map (errors (snd (validateForm (initial_state\<lparr>formData :=
      \<lparr>name = js ''   '', email = js ''kim.example.com'', subject = js ''Hello'',
       message = js ''Too short''\<rparr>, errors := [Subject \<mapsto> Some subjectRequiredMessage]\<rparr>))))
        [Name, Email, Subject, Message]
     = [Some (Some nameRequiredMessage), Some (Some emailFormatMessage), None,
        Some (Some messageTooShortMessage)]
   \<and> fst (validateForm (initial_state\<lparr>formData :=
      \<lparr>name = js ''Kim'', email = js ''kim@example.com'', subject = js ''Hello'',
       message = js ''Long enough.''\<rparr>, errors := [Subject \<mapsto> Some subjectRequiredMessage]\<rparr>))
   \<and> map (errors (snd (validateForm (initial_state\<lparr>formData :=
      \<lparr>name = js ''Kim'', email = js ''kim@example.com'', subject = js ''Hello'',
       message = js ''Long enough.''\<rparr>, errors := [Subject \<mapsto> Some subjectRequiredMessage]\<rparr>))))
        [Name, Email, Subject, Message]
     = [None, None, None, None]"
proof -
  let ?bad = "initial_state\<lparr>formData :=
      \<lparr>name = js ''   '', email = js ''kim.example.com'', subject = js ''Hello'',
       message = js ''Too short''\<rparr>, errors := [Subject \<mapsto> Some subjectRequiredMessage]\<rparr>"
  let ?good = "initial_state\<lparr>formData :=
      \<lparr>name = js ''Kim'', email = js ''kim@example.com'', subject = js ''Hello'',
       message = js ''Long enough.''\<rparr>, errors := [Subject \<mapsto> Some subjectRequiredMessage]\<rparr>"
  have bad: "trim (name (formData ?bad)) = []" "trim (email (formData ?bad)) \<noteq> []"
    "\<not> validateEmail (email (formData ?bad))" "trim (subject (formData ?bad)) \<noteq> []"
    "trim (message (formData ?bad)) \<noteq> []" "length (trim (message (formData ?bad))) < 10"
    by code_simp+
  have good: "trim (name (formData ?good)) \<noteq> []" "trim (email (formData ?good)) \<noteq> []"
    "validateEmail (email (formData ?good))" "trim (subject (formData ?good)) \<noteq> []"
    "trim (message (formData ?good)) \<noteq> []" "\<not> length (trim (message (formData ?good))) < 10"
    by code_simp+
  note B = validateForm_checks_every_field [of ?bad, THEN conjunct2]
  note G = validateForm_checks_every_field [of ?good, THEN conjunct2]
  have eb: "map (errors (snd (validateForm ?bad))) [Name, Email, Subject, Message]
     = [Some (Some nameRequiredMessage), Some (Some emailFormatMessage), None,
        Some (Some messageTooShortMessage)]"
    using bad B [THEN conjunct1] B [THEN conjunct2, THEN conjunct1]
      B [THEN conjunct2, THEN conjunct2, THEN conjunct1]
      B [THEN conjunct2, THEN conjunct2, THEN conjunct2, THEN conjunct1]
    by simp
  have eg: "map (errors (snd (validateForm ?good))) [Name, Email, Subject, Message]
     = [None, None, None, None]"
    using good G [THEN conjunct1] G [THEN conjunct2, THEN conjunct1]
      G [THEN conjunct2, THEN conjunct2, THEN conjunct1]
      G [THEN conjunct2, THEN conjunct2, THEN conjunct2, THEN conjunct1]
    by simp
  have fb: "\<not> fst (validateForm ?bad)"
    using eb B [THEN conjunct2, THEN conjunct2, THEN conjunct2, THEN conjunct2,
      THEN conjunct2, THEN conjunct2]
    by auto
  have fg: "fst (validateForm ?good)"
    using eg G [THEN conjunct2, THEN conjunct2, THEN conjunct2, THEN conjunct2,
      THEN conjunct2, THEN conjunct2]
    by (simp add: all_field)
  show ?thesis
    using fb fg eb eg by blast
qed

text \<open>
  \<^bold>\<open>C6.\<close> When the form passes validation and the awaited \<^verbatim>\<open>sendContactEmail\<close> throws, whatever it
  throws, \<^verbatim>\<open>handleSubmit\<close> commits the loading state and then the error state with the fixed
  failure message; the four field values are the same in every state it commits, and the
  thrown value goes to the console only.
\<close>

theorem failed_submission_keeps_fields:
  assumes "fst (validateForm s)" and "sendContactEmail (formData s) = Inl e"
  shows "handleSubmit sendContactEmail s =
           \<lparr>defaultPrevented = True,
            states =
              [s\<lparr>errors := Map.empty, status := Loading\<rparr>,
               s\<lparr>errors := Map.empty, status := Error, statusMessage := submitFailureMessage\<rparr>],
            sent = [formData s], console = [ConsoleError ''Email sending failed:'' e]\<rparr>
         \<and> map status (s # states (handleSubmit sendContactEmail s))
             = [status s, Loading, Error]
         \<and> statusMessage (last (states (handleSubmit sendContactEmail s)))
             = submitFailureMessage
         \<and> (\<forall>t \<in> set (states (handleSubmit sendContactEmail s)). formData t = formData s)"
  using assms by (simp add: handleSubmit_valid)

theorem failed_submission_keeps_fields_witness:
  "fst (validateForm (sample_state sample_form))
   \<and> map status
        (sample_state sample_form
         # states (handleSubmit (\<lambda>fd. Inl (js ''Failed to fetch'') :: jsstring + unit)
                    (sample_state sample_form)))
      = [Idle, Loading, Error]
   \<and> last (states (handleSubmit (\<lambda>fd. Inl (js ''Failed to fetch'') :: jsstring + unit)
                     (sample_state sample_form)))
      = \<lparr>formData = sample_form, errors = Map.empty, status = Error,
         statusMessage = submitFailureMessage\<rparr>"
proof -
  let ?s = "sample_state sample_form"
  let ?send = "\<lambda>fd. Inl (js ''Failed to fetch'') :: jsstring + unit"
  have ok: "fst (validateForm ?s)"
    by code_simp
  have send: "?send (formData ?s) = Inl (js ''Failed to fetch'')"
    by simp
  note T = failed_submission_keeps_fields [OF ok send]
  show ?thesis
    using ok T by (simp add: sample_state_def initial_state_def)
qed

text \<open>
  \<^bold>\<open>C7.\<close> For a message that is not empty after trimming, \<^verbatim>\<open>validateForm\<close> records the
  too-short error for the message field exactly when the trimmed message has fewer than 10
  code units; with exactly 10 it records nothing for the field.
\<close>

theorem message_too_short_iff:
  assumes "trim (message (formData s)) \<noteq> []"
  shows "(errors (snd (validateForm s)) Message = Some (Some messageTooShortMessage)
            \<longleftrightarrow> length (trim (message (formData s))) < 10)
         \<and> (errors (snd (validateForm s)) Message = None
            \<longleftrightarrow> 10 \<le> length (trim (message (formData s))))
         \<and> (length (trim (message (formData s))) = 10 \<longrightarrow>
              errors (snd (validateForm s)) Message = None)"
  using assms by (simp add: validateForm_errors_Message)

theorem message_too_short_iff_witness:
  "trim (message (formData (initial_state\<lparr>formData :=
      \<lparr>name = [], email = [], subject = [], message = js ''  0123456789 ''\<rparr>\<rparr>))) \<noteq> []
   \<and> errors (snd (validateForm (initial_state\<lparr>formData :=
      \<lparr>name = [], email = [], subject = [], message = js ''  0123456789 ''\<rparr>\<rparr>))) Message = None
   \<and> trim (message (formData (initial_state\<lparr>formData :=
      \<lparr>name = [], email = [], subject = [], message = js '' too short ''\<rparr>\<rparr>))) \<noteq> []
   \<and> errors (snd (validateForm (initial_state\<lparr>formData :=
      \<lparr>name = [], email = [], subject = [], message = js '' too short ''\<rparr>\<rparr>))) Message
       = Some (Some messageTooShortMessage)"
proof -
  let ?s10 = "initial_state\<lparr>formData :=
      \<lparr>name = [], email = [], subject = [], message = js ''  0123456789 ''\<rparr>\<rparr>"
  let ?s9 = "initial_state\<lparr>formData :=
      \<lparr>name = [], email = [], subject = [], message = js '' too short ''\<rparr>\<rparr>"
  have t10: "trim (message (formData ?s10)) = js ''0123456789''"
    by code_simp
  have t9: "trim (message (formData ?s9)) = js ''too short''"
    by code_simp
  have h10: "trim (message (formData ?s10)) \<noteq> []"
    unfolding t10 by (simp add: js_def)
  have h9: "trim (message (formData ?s9)) \<noteq> []"
    unfolding t9 by (simp add: js_def)
  have l10: "length (trim (message (formData ?s10))) = 10"
    unfolding t10 by (simp add: js_def)
  have l9: "length (trim (message (formData ?s9))) < 10"
    unfolding t9 by (simp add: js_def)
  show ?thesis
    using h10 h9 l10 l9 message_too_short_iff [OF h10] message_too_short_iff [OF h9]
    by blast
qed

text \<open>
  \<^bold>\<open>C8.\<close> \<^verbatim>\<open>handleInputChange\<close> stores the value as given in the field named by the event and
  leaves the other three fields alone; an error recorded for that field (validation only
  records non-empty messages) is cleared, the errors of the other fields stay as they were,
  and without such an error the mapping does not change. Status and status message are
  untouched.
\<close>

theorem handleInputChange_stores_and_clears:
  "field_value f (formData (handleInputChange f v s)) = v
   \<and> (\<forall>g. g \<noteq> f \<longrightarrow>
         field_value g (formData (handleInputChange f v s)) = field_value g (formData s)
         \<and> errors (handleInputChange f v s) g = errors s g)
   \<and> (\<forall>m. errors s f = Some (Some m) \<and> m \<noteq> [] \<longrightarrow>
         errors (handleInputChange f v s) f = Some None)
   \<and> ((\<nexists>m. errors s f = Some (Some m) \<and> m \<noteq> []) \<longrightarrow>
         errors (handleInputChange f v s) = errors s)
   \<and> status (handleInputChange f v s) = status s
   \<and> statusMessage (handleInputChange f v s) = statusMessage s"
  by (auto simp: handleInputChange_def Let_def set_field_value falsy_def split: option.splits)

theorem handleInputChange_stores_and_clears_witness:
  "errors (initial_state\<lparr>errors :=
       [Name \<mapsto> Some nameRequiredMessage, Email \<mapsto> Some emailRequiredMessage]\<rparr>) Name
     = Some (Some nameRequiredMessage)
   \<and> nameRequiredMessage \<noteq> []
   \<and> name (formData (handleInputChange Name (js '' Kim '')
       (initial_state\<lparr>errors :=
          [Name \<mapsto> Some nameRequiredMessage, Email \<mapsto> Some emailRequiredMessage]\<rparr>)))
     = js '' Kim ''
   \<and> errors (handleInputChange Name (js '' Kim '')
       (initial_state\<lparr>errors :=
          [Name \<mapsto> Some nameRequiredMessage, Email \<mapsto> Some emailRequiredMessage]\<rparr>)) Name
     = Some None
   \<and> errors (handleInputChange Name (js '' Kim '')
       (initial_state\<lparr>errors :=
          [Name \<mapsto> Some nameRequiredMessage, Email \<mapsto> Some emailRequiredMessage]\<rparr>)) Email
     = Some (Some emailRequiredMessage)"
proof -
  let ?s = "initial_state\<lparr>errors :=
        [Name \<mapsto> Some nameRequiredMessage, Email \<mapsto> Some emailRequiredMessage]\<rparr>"
  note T = handleInputChange_stores_and_clears [of Name "js '' Kim ''" ?s]
  have rec: "errors ?s Name = Some (Some nameRequiredMessage) \<and> nameRequiredMessage \<noteq> []"
    by (simp add: nameRequiredMessage_def)
  have stored: "name (formData (handleInputChange Name (js '' Kim '') ?s)) = js '' Kim ''"
    using T [THEN conjunct1] by simp
  have cleared: "errors (handleInputChange Name (js '' Kim '') ?s) Name = Some None"
    using rec T [THEN conjunct2, THEN conjunct2, THEN conjunct1] by blast
  have "Email \<noteq> Name"
    by simp
  then have "errors (handleInputChange Name (js '' Kim '') ?s) Email = errors ?s Email"
    using T [THEN conjunct2, THEN conjunct1] by blast
  then have kept: "errors (handleInputChange Name (js '' Kim '') ?s) Email
      = Some (Some emailRequiredMessage)"
    by simp
  show ?thesis
    using rec stored cleared kept by blast
qed

text \<open>
  \<^bold>\<open>C9.\<close> \<^verbatim>\<open>resetStatus\<close> sets the status to idle and the status message to the empty string
  and keeps the field values and the field errors; on a state that is already idle with an
  empty message it changes nothing, and applying it twice is applying it once.
\<close>

theorem resetStatus_idempotent:
  "status (resetStatus s) = Idle \<and> statusMessage (resetStatus s) = []
   \<and> formData (resetStatus s) = formData s \<and> errors (resetStatus s) = errors s
   \<and> (status s = Idle \<and> statusMessage s = [] \<longrightarrow> resetStatus s = s)
   \<and> resetStatus (resetStatus s) = resetStatus s"
  by (simp add: resetStatus_def)

theorem resetStatus_idempotent_witness:
  "resetStatus initial_state = initial_state
   \<and> resetStatus
        \<lparr>formData = \<lparr>name = js ''Kim'', email = js ''kim@example.com'', subject = js ''Hi'',
                      message = js ''A question.''\<rparr>,
         errors = [Name \<mapsto> Some nameRequiredMessage], status = Error,
         statusMessage = submitFailureMessage\<rparr>
       = \<lparr>formData = \<lparr>name = js ''Kim'', email = js ''kim@example.com'', subject = js ''Hi'',
                       message = js ''A question.''\<rparr>,
          errors = [Name \<mapsto> Some nameRequiredMessage], status = Idle, statusMessage = []\<rparr>"
  using resetStatus_idempotent [of initial_state]
    resetStatus_idempotent
      [of "\<lparr>formData = \<lparr>name = js ''Kim'', email = js ''kim@example.com'', subject = js ''Hi'',
                      message = js ''A question.''\<rparr>,
         errors = [Name \<mapsto> Some nameRequiredMessage], status = Error,
         statusMessage = submitFailureMessage\<rparr>"]
  by (simp add: initial_state_def resetStatus_def)

text \<open>
  \<^bold>\<open>C10.\<close> The relay tests its four fields for being non-empty, without trimming. For a
  POST body whose four fields are all non-empty, whose name, subject or message is white
  space only and whose email has the address shape, the relay never answers 400. When the
  credential is set, it makes exactly one call to the provider: a POST to the Resend
  endpoint, authorized with the key, whose payload has the fixed sender and recipient, the
  subject behind its fixed prefix, and the HTML template filled with the name, the email,
  the subject and the message as received (untrimmed, line feeds of the message turned into
  line breaks). The form rejects the same values and sends nothing.
\<close>

theorem relay_forwards_whitespace_only_fields:
  assumes "req_method req = ''POST''" and "req_json req = Some body"
    and "body ''name'' = Some n" and "body ''email'' = Some e"
    and "body ''subject'' = Some sj" and "body ''message'' = Some m"
    and "n \<noteq> []" and "sj \<noteq> []" and "m \<noteq> []" and "validateEmail e"
    and "trim n = [] \<or> trim sj = [] \<or> trim m = []"
    and "formData s = \<lparr>name = n, email = e, subject = sj, message = m\<rparr>"
  shows "resp_status (response (handler env req)) \<noteq> 400
         \<and> (\<forall>k. RESEND_API_KEY env = Some k \<and> k \<noteq> [] \<longrightarrow>
               fetched (handler env req) =
                 [\<lparr>url = ''https://api.resend.com/emails'', fetch_method = ''POST'',
                   authorization = js ''Bearer '' @ k, content_type = ''application/json'',
                   fetch_body =
                     \<lparr>payload_from = ''mastery0621@gmail.com'',
                      payload_to = [''mastery0621@gmail.com''],
                      payload_subject = subjectPrefix @ sj,
                      payload_html =
                        html_part0 @ n @ html_part1 @ e @ html_part2 @ sj @ html_part3
                        @ concat (map (\<lambda>c. if c = 0x000A then js ''<br>'' else [c]) m)
                        @ html_part4\<rparr>\<rparr>])
         \<and> \<not> fst (validateForm s)
         \<and> sent (handleSubmit sendContactEmail s) = []"
proof -
  from assms(10) have "e \<noteq> []"
    using validateEmail_trim [of e] by (auto dest: trim_nonempty)
  with assms(3-10) have accepted: "resp_status (response (handler env req)) \<noteq> 400"
    by (simp add: handler_post_status_400 [OF assms(1,2)] falsy_def toString_def
        validateEmail_def)
  have fwd: "handler env req = deliver env (resend_request k (emailPayload n e sj m))"
    if "RESEND_API_KEY env = Some k" and "k \<noteq> []" for k
    using assms(1-10) that by (rule handler_forwards)
  have call: "fetched (handler env req) =
      [\<lparr>url = ''https://api.resend.com/emails'', fetch_method = ''POST'',
        authorization = js ''Bearer '' @ k, content_type = ''application/json'',
        fetch_body =
          \<lparr>payload_from = ''mastery0621@gmail.com'',
           payload_to = [''mastery0621@gmail.com''],
           payload_subject = subjectPrefix @ sj,
           payload_html =
             html_part0 @ n @ html_part1 @ e @ html_part2 @ sj @ html_part3
             @ concat (map (\<lambda>c. if c = 0x000A then js ''<br>'' else [c]) m)
             @ html_part4\<rparr>\<rparr>]"
    if "RESEND_API_KEY env = Some k" and "k \<noteq> []" for k
    unfolding fwd [OF that]
    by (simp add: deliver_fetched resend_request_def emailPayload_def replace_newlines_def)
  have "\<not> field_valid Name (formData s) \<or> \<not> field_valid Subject (formData s)
      \<or> \<not> field_valid Message (formData s)"
    using assms(11,12) by auto
  then have bad: "\<not> fst (validateForm s)"
    unfolding validateForm_valid by blast
  then have "sent (handleSubmit sendContactEmail s) = []"
    by (simp add: handleSubmit_invalid)
  with accepted bad call show ?thesis
    by blast
qed

theorem relay_forwards_whitespace_only_fields_witness:
  "name (sample_form\<lparr>name := js ''   ''\<rparr>) \<noteq> []
   \<and> trim (name (sample_form\<lparr>name := js ''   ''\<rparr>)) = []
   \<and> fetched (handler (sample_env (Some (js ''re_key'')))
        (sample_post (sample_form\<lparr>name := js ''   ''\<rparr>)))
      = [\<lparr>url = ''https://api.resend.com/emails'', fetch_method = ''POST'',
          authorization = js ''Bearer re_key'', content_type = ''application/json'',
          fetch_body =
            \<lparr>payload_from = ''mastery0621@gmail.com'',
             payload_to = [''mastery0621@gmail.com''],
             payload_subject = subjectPrefix @ js ''Hello'',
             payload_html =
               html_part0 @ js ''   '' @ html_part1 @ js ''kim@example.com'' @ html_part2
               @ js ''Hello'' @ html_part3 @ js ''A question about the site.''
               @ html_part4\<rparr>\<rparr>]
   \<and> resp_status (response (handler (sample_env (Some (js ''re_key'')))
        (sample_post (sample_form\<lparr>name := js ''   ''\<rparr>)))) = 200
   \<and> \<not> fst (validateForm (sample_state (sample_form\<lparr>name := js ''   ''\<rparr>)))
   \<and> sent (handleSubmit (\<lambda>fd. Inr () :: unit + unit)
        (sample_state (sample_form\<lparr>name := js ''   ''\<rparr>))) = []"
proof -
  let ?fd = "sample_form\<lparr>name := js ''   ''\<rparr>"
  let ?env = "sample_env (Some (js ''re_key''))"
  let ?body = "[''name'' \<mapsto> name ?fd, ''email'' \<mapsto> email ?fd, ''subject'' \<mapsto> subject ?fd,
      ''message'' \<mapsto> message ?fd]"
  have post: "req_method (sample_post ?fd) = ''POST''" "req_json (sample_post ?fd) = Some ?body"
    by (simp_all add: sample_post_def)
  have fields: "?body ''name'' = Some (js ''   '')" "?body ''email'' = Some (email sample_form)"
    "?body ''subject'' = Some (subject sample_form)"
    "?body ''message'' = Some (message sample_form)"
    by simp_all
  have nonempty: "js ''   '' \<noteq> []" "subject sample_form \<noteq> []" "message sample_form \<noteq> []"
    by (simp_all add: js_def sample_form_def)
  have mail: "validateEmail (email sample_form)"
    by code_simp
  have blank: "trim (js ''   '') = []"
    by code_simp
  then have some_blank: "trim (js ''   '') = [] \<or> trim (subject sample_form) = []
      \<or> trim (message sample_form) = []"
    by simp
  have key: "RESEND_API_KEY ?env = Some (js ''re_key'')" "js ''re_key'' \<noteq> []"
    by (simp_all add: sample_env_def js_def)
  have form: "formData (sample_state ?fd)
      = \<lparr>name = js ''   '', email = email sample_form, subject = subject sample_form,
         message = message sample_form\<rparr>"
    by (simp add: sample_state_def sample_form_def)
  note T = relay_forwards_whitespace_only_fields
    [OF post fields nonempty mail some_blank form, of ?env "\<lambda>fd. Inr () :: unit + unit"]
  have given: "email sample_form = js ''kim@example.com''" "subject sample_form = js ''Hello''"
    "message sample_form = js ''A question about the site.''"
    by (simp_all add: sample_form_def)
  have bearer: "js ''Bearer '' @ js ''re_key'' = js ''Bearer re_key''"
    by (simp add: js_def)
  have no_lf: "concat (map (\<lambda>c. if c = 0x000A then js ''<br>'' else [c])
      (js ''A question about the site.'')) = js ''A question about the site.''"
    by code_simp
  note C = T [THEN conjunct2, THEN conjunct1, THEN spec, THEN mp, OF conjI [OF key]]
  have calls: "fetched (handler ?env (sample_post ?fd))
      = [\<lparr>url = ''https://api.resend.com/emails'', fetch_method = ''POST'',
          authorization = js ''Bearer re_key'', content_type = ''application/json'',
          fetch_body =
            \<lparr>payload_from = ''mastery0621@gmail.com'',
             payload_to = [''mastery0621@gmail.com''],
             payload_subject = subjectPrefix @ js ''Hello'',
             payload_html =
               html_part0 @ js ''   '' @ html_part1 @ js ''kim@example.com'' @ html_part2
               @ js ''Hello'' @ html_part3 @ js ''A question about the site.''
               @ html_part4\<rparr>\<rparr>]"
    using C unfolding given bearer no_lf .
  have "handler ?env (sample_post ?fd)
      = deliver ?env
          (resend_request (js ''re_key'')
             (emailPayload (js ''   '') (email sample_form) (subject sample_form)
                (message sample_form)))"
    using post fields nonempty mail key by (rule handler_forwards)
  then have ok: "resp_status (response (handler ?env (sample_post ?fd))) = 200"
    by (simp add: deliver_def sample_env_def json_response_def)
  have shown: "name ?fd = js ''   ''"
    by simp
  note rejected = T [THEN conjunct2, THEN conjunct2, THEN conjunct1]
  note unsent = T [THEN conjunct2, THEN conjunct2, THEN conjunct2]
  show ?thesis
    unfolding shown
    by (intro conjI) (fact nonempty(1) blank calls ok rejected unsent)+
qed

theorem relay_forwards_whitespace_only_fields_counterexample:
  "trim (js ''   '') = []
   \<and> validateEmail (js ''kim@example.com'')
   \<and> resp_status (response (handler (sample_env (Some (js ''re_key'')))
        \<lparr>req_method = ''POST'',
         req_json =
           Some [''name'' \<mapsto> js ''   '', ''email'' \<mapsto> js ''kim@example.com'',
                 ''subject'' \<mapsto> [], ''message'' \<mapsto> js ''A question about the site.'']\<rparr>))
      = 400
   \<and> resp_body (response (handler (sample_env (Some (js ''re_key'')))
        \<lparr>req_method = ''POST'',
         req_json =
           Some [''name'' \<mapsto> js ''   '', ''email'' \<mapsto> js ''kim@example.com'',
                 ''subject'' \<mapsto> [], ''message'' \<mapsto> js ''A question about the site.'']\<rparr>))
      = Some [(''error'', JString (js ''All fields are required''))]
   \<and> fetched (handler (sample_env (Some (js ''re_key'')))
        \<lparr>req_method = ''POST'',
         req_json =
           Some [''name'' \<mapsto> js ''   '', ''email'' \<mapsto> js ''kim@example.com'',
                 ''subject'' \<mapsto> [], ''message'' \<mapsto> js ''A question about the site.'']\<rparr>)
      = []
   \<and> resp_status (response (handler (sample_env None)
        \<lparr>req_method = ''POST'',
         req_json =
           Some [''name'' \<mapsto> js ''   '', ''email'' \<mapsto> js ''kim@example.com'',
                 ''subject'' \<mapsto> js ''Hello'',
                 ''message'' \<mapsto> js ''A question about the site.'']\<rparr>))
      = 500
   \<and> fetched (handler (sample_env None)
        \<lparr>req_method = ''POST'',
         req_json =
           Some [''name'' \<mapsto> js ''   '', ''email'' \<mapsto> js ''kim@example.com'',
                 ''subject'' \<mapsto> js ''Hello'',
                 ''message'' \<mapsto> js ''A question about the site.'']\<rparr>)
      = []"
proof -
  have blank: "trim (js ''   '') = []"
    by code_simp
  have mail: "validateEmail (js ''kim@example.com'')"
    by code_simp
  then have rx: "regex_test emailRegex (js ''kim@example.com'')"
    by (simp only: validateEmail_def)
  have ne: "js ''   '' \<noteq> []" "js ''kim@example.com'' \<noteq> []" "js ''Hello'' \<noteq> []"
    "js ''A question about the site.'' \<noteq> []"
    by (simp_all add: js_def)
  have missing: "handler (sample_env (Some (js ''re_key'')))
        \<lparr>req_method = ''POST'',
         req_json =
           Some [''name'' \<mapsto> js ''   '', ''email'' \<mapsto> js ''kim@example.com'',
                 ''subject'' \<mapsto> [], ''message'' \<mapsto> js ''A question about the site.'']\<rparr>
      = \<lparr>response =
           json_response (corsHeaders (sample_env (Some (js ''re_key'')))) 400
             [(''error'', JString (js ''All fields are required''))],
         fetched = [], logged = []\<rparr>"
    by (simp add: handler_def falsy_def)
  have unconfigured: "handler (sample_env None)
        \<lparr>req_method = ''POST'',
         req_json =
           Some [''name'' \<mapsto> js ''   '', ''email'' \<mapsto> js ''kim@example.com'',
                 ''subject'' \<mapsto> js ''Hello'',
                 ''message'' \<mapsto> js ''A question about the site.'']\<rparr>
      = \<lparr>response =
           json_response (corsHeaders (sample_env None)) 500
             [(''error'', JString (js ''Email service not configured''))],
         fetched = [],
         logged =
           [ConsoleError ''RESEND_API_KEY not found in environment variables'' NoDetail]\<rparr>"
    using ne rx by (simp add: handler_def falsy_def toString_def sample_env_def)
  show ?thesis
    unfolding missing unconfigured using blank mail by (simp add: json_response_def)
qed

end
